theory Spec2Isabelle
  imports Complex_Main "HOL-Library.Word"
begin

section \<open>Data model of the MPPI optimizer\<close>

text \<open>
  The optimizer stores its numbers as C++ \<^verbatim>\<open>double\<close>s. They are modelled as
  \<^typ>\<open>real\<close>: rounding, infinities and NaN are not part of the model, with one
  exception. \<open>setOffset\<close> branches on comparisons of computed doubles, so there the
  rounding of each operation is a parameter and the division by zero is written out.
  Elsewhere a zero divisor that a property depends on is excluded by a hypothesis
  (the temperature of the softmax update).
  Tensors are nested lists: a tensor of shape \<open>(B, H, C)\<close> is a list of \<open>B\<close>
  matrices, each a list of \<open>H\<close> rows of \<open>C\<close> numbers.
\<close>

type_synonym tensor1 = "real list"
type_synonym tensor2 = "real list list"
type_synonym tensor3 = "real list list list"

definition zeros1 :: "nat \<Rightarrow> tensor1" where
  "zeros1 n = replicate n 0"

definition zeros2 :: "nat \<Rightarrow> nat \<Rightarrow> tensor2" where
  "zeros2 h c = replicate h (zeros1 c)"

definition zeros3 :: "nat \<Rightarrow> nat \<Rightarrow> nat \<Rightarrow> tensor3" where
  "zeros3 b h c = replicate b (zeros2 h c)"

record SamplingStd =
  vx :: real
  vy :: real
  wz :: real

record ControlConstraints =
  vx :: real
  vy :: real
  wz :: real

text \<open>
  \<open>OptimizerSettings\<close>, with the fields \<open>getParams\<close> fills.
  \<open>retry_attempt_limit\<close> is an unsigned integer whose declaration is not among the
  sources; the field holds its value as converted for the comparison with the
  \<^verbatim>\<open>size_t\<close> retry counter.
\<close>

record OptimizerSettings =
  model_dt :: real
  time_steps :: nat
  batch_size :: nat
  iteration_count :: nat
  temperature :: real
  base_constraints :: ControlConstraints
  constraints :: ControlConstraints
  sampling_std :: SamplingStd
  retry_attempt_limit :: nat
  shift_control_sequence :: bool

record Twist =
  linear_x :: real
  linear_y :: real
  angular_z :: real

record TwistStamped =
  twist :: Twist
  stamp :: nat
  frame_id :: string

text \<open>A pose is \<open>(x, y, yaw)\<close>; a plan is a stamped list of poses.\<close>

type_synonym Pose = "real \<times> real \<times> real"

record Path =
  header_stamp :: nat
  poses :: "Pose list"

text \<open>
  Modelled from the spec: the three motion models and their holonomy flag
  (\<^verbatim>\<open>MotionModel::isHolonomic\<close>, whose classes are not among the sources).
  DiffDrive and Ackermann are not holonomic, Omni is; Ackermann carries its
  minimum turning radius.
\<close>

datatype MotionModel =
  DiffDriveMotionModel | OmniMotionModel | AckermannMotionModel real

fun MotionModel_isHolonomic :: "MotionModel \<Rightarrow> bool" where
  "MotionModel_isHolonomic DiffDriveMotionModel = False"
| "MotionModel_isHolonomic OmniMotionModel = True"
| "MotionModel_isHolonomic (AckermannMotionModel r) = False"

text \<open>
  Modelled from the spec: the layout of the control columns. A row of the control
  sequence, and of the control slice of the state, is \<open>(cvx, cwz)\<close> for a model that
  is not holonomic and \<open>(cvx, cvy, cwz)\<close> for a holonomic one.
\<close>

definition control_dim :: "bool \<Rightarrow> nat" where
  "control_dim holonomic = (if holonomic then 3 else 2)"

definition cvx_col :: nat where
  "cvx_col = 0"

definition cvy_col :: nat where
  "cvy_col = 1"

definition cwz_col :: "bool \<Rightarrow> nat" where
  "cwz_col holonomic = (if holonomic then 2 else 1)"

text \<open>
  \<open>models::State\<close>. The dense tensor \<open>(B, H, D)\<close> is held by its named slices, which
  the source reads and writes only through the accessors \<open>getControls\<close>,
  \<open>getControlVelocitiesVX\<close>, ..., \<open>getTimeIntervals\<close>: the control slice and the
  velocity slice of shape \<open>(B, H, C)\<close> and the time intervals of shape \<open>(B, H)\<close>.
  \<open>idx\<close> is the layout, fixed by the holonomy flag given to \<open>setLayout\<close>.
\<close>

record State =
  controls :: tensor3
  velocities :: tensor3
  time_intervals :: tensor2
  idx :: bool
  pose :: Pose
  speed :: Twist

record ControlSequence =
  data :: tensor2
  idx :: bool

text \<open>
  The noise generator: its output buffer and the state of its random engine.
\<close>

record NoiseGenerator =
  noises :: tensor3
  engine :: nat

text \<open>
  The \<open>Optimizer\<close> object. \<open>fail_flag\<close> and \<open>goal_checker\<close> are the fields of
  \<open>critics_data_\<close> that the optimizer writes; \<open>base_frame_id\<close> is what
  \<open>costmap_ros_->getBaseFrameID()\<close> returns; \<open>logger\<close> is the list of messages
  logged so far. The members are named as in the source, without the trailing
  underscore.
\<close>

record Optimizer =
  settings :: OptimizerSettings
  state :: State
  control_sequence :: ControlSequence
  costs :: tensor1
  generated_trajectories :: tensor3
  plan :: tensor2
  noise_generator :: NoiseGenerator
  motion_model :: MotionModel
  fail_flag :: bool
  goal_checker :: nat
  base_frame_id :: string
  logger :: "string list"

datatype error = RuntimeError string | OutOfBounds | ShapeError

definition isHolonomic :: "Optimizer \<Rightarrow> bool" where
  "isHolonomic opt = MotionModel_isHolonomic (motion_model opt)"

section \<open>Configuration: controller period and speed limit\<close>

text \<open>
  \<open>setOffset\<close>. \<open>fl\<close> is the rounding of double arithmetic: an operation whose exact
  result is \<open>x\<close> returns the double \<open>fl x\<close>. The period is the rounded quotient, the
  first test compares it with \<open>model_dt\<close> as it is, the second test takes the rounded
  difference, and \<open>eps\<close> is the double written \<open>1e-6\<close>. Overflow and NaN are not
  modelled, except that with \<open>controller_frequency = 0\<close> (the default of the
  parameter) the period \<open>1.0 / 0.0\<close> is \<open>+infinity\<close>: it is not below \<open>model_dt\<close> and
  not within \<open>eps\<close> of it, so the last branch throws.
\<close>

definition setOffset :: "(real \<Rightarrow> real) \<Rightarrow> real \<Rightarrow> Optimizer \<Rightarrow> error + Optimizer" where
  "setOffset fl controller_frequency opt =
     (if controller_frequency = 0 then
        Inl (RuntimeError ''Controller period more then model dt, set it equal to model dt'')
      else
        (let controller_period = fl (1 / controller_frequency);
             eps = fl (1 / 10 ^ 6)
         in if controller_period < model_dt (settings opt) then
              Inr (opt\<lparr>logger := logger opt @
                [''Controller period is less then model dt, consider setting it equal'']\<rparr>)
            else if \<bar>fl (controller_period - model_dt (settings opt))\<bar> < eps then
              Inr (opt\<lparr>logger := logger opt @
                     [''Controller period is equal to model dt. Control seuqence shifting is ON''],
                   settings := (settings opt)\<lparr>shift_control_sequence := True\<rparr>\<rparr>)
            else
              Inl (RuntimeError ''Controller period more then model dt, set it equal to model dt'')))"

text \<open>
  \<open>nav2_costmap_2d::NO_SPEED_LIMIT\<close> of \<^verbatim>\<open>filter_values.hpp\<close>, a header of
  the navigation host: the constant \<open>0.0\<close>.
\<close>

definition NO_SPEED_LIMIT :: real where
  "NO_SPEED_LIMIT = 0"

definition setSpeedLimit :: "real \<Rightarrow> bool \<Rightarrow> Optimizer \<Rightarrow> Optimizer" where
  "setSpeedLimit speed_limit percentage opt =
     (let s = settings opt in
      if speed_limit = NO_SPEED_LIMIT then
        opt\<lparr>settings := s\<lparr>constraints := (constraints s)
             \<lparr>vx := ControlConstraints.vx (base_constraints s),
              vy := ControlConstraints.vy (base_constraints s),
              wz := ControlConstraints.wz (base_constraints s)\<rparr>\<rparr>\<rparr>
      else if percentage then
        (let ratio = speed_limit / 100 in
         opt\<lparr>settings := s\<lparr>constraints := (constraints s)
              \<lparr>vx := ControlConstraints.vx (base_constraints s) * ratio,
               vy := ControlConstraints.vy (base_constraints s) * ratio,
               wz := ControlConstraints.wz (base_constraints s) * ratio\<rparr>\<rparr>\<rparr>)
      else
        (let ratio = speed_limit / ControlConstraints.vx (base_constraints s) in
         opt\<lparr>settings := s\<lparr>constraints := (constraints s)
              \<lparr>vx := speed_limit,
               vy := ControlConstraints.vx (base_constraints s) * ratio,
               wz := ControlConstraints.wz (base_constraints s) * ratio\<rparr>\<rparr>\<rparr>))"

section \<open>Reset and the retry counter\<close>

text \<open>
  Modelled from the spec: \<open>State::reset\<close>, \<open>ControlSequence::reset\<close> and
  \<open>NoiseGenerator::reset\<close>, which are not among the sources. Each re-allocates its
  buffer for the current batch size, horizon and layout. The control sequence is
  zero-initialised, as the spec says; the new state and noise buffers are filled with
  zeros as well.
\<close>

definition State_reset :: "nat \<Rightarrow> nat \<Rightarrow> State \<Rightarrow> State" where
  "State_reset b h st =
     st\<lparr>controls := zeros3 b h (control_dim (State.idx st)),
        velocities := zeros3 b h (control_dim (State.idx st)),
        time_intervals := zeros2 b h\<rparr>"

definition ControlSequence_reset :: "nat \<Rightarrow> ControlSequence \<Rightarrow> ControlSequence" where
  "ControlSequence_reset h cs =
     cs\<lparr>data := zeros2 h (control_dim (ControlSequence.idx cs))\<rparr>"

definition NoiseGenerator_reset ::
  "OptimizerSettings \<Rightarrow> bool \<Rightarrow> NoiseGenerator \<Rightarrow> NoiseGenerator" where
  "NoiseGenerator_reset s holonomic ng =
     ng\<lparr>noises := zeros3 (batch_size s) (time_steps s) (control_dim holonomic)\<rparr>"

text \<open>
  \<open>state_.getTimeIntervals() = settings_.model_dt\<close>: every interval is assigned.
\<close>

definition assignTimeIntervals :: "real \<Rightarrow> State \<Rightarrow> State" where
  "assignTimeIntervals dt st = st\<lparr>time_intervals := map (map (\<lambda>_. dt)) (time_intervals st)\<rparr>"

definition reset :: "Optimizer \<Rightarrow> Optimizer" where
  "reset opt =
     (let s = settings opt in
      opt\<lparr>state := assignTimeIntervals (model_dt s)
                       (State_reset (batch_size s) (time_steps s) (state opt)),
          control_sequence := ControlSequence_reset (time_steps s) (control_sequence opt),
          costs := zeros1 (batch_size s),
          noise_generator := NoiseGenerator_reset s (isHolonomic opt) (noise_generator opt),
          logger := logger opt @ [''Optimizer reset'']\<rparr>)"

text \<open>The number of \<open>reset()\<close> calls an optimizer has logged.\<close>

definition reset_calls :: "Optimizer \<Rightarrow> nat" where
  "reset_calls opt = count_list (logger opt) ''Optimizer reset''"

text \<open>
  \<open>fallback\<close>. Its counter is a function-local \<^verbatim>\<open>static size_t\<close>: one 64-bit
  cell of the process, not a member of the object, so it is passed beside the
  optimizer and returned. A throw leaves the reset and the cleared counter behind;
  the result is the error, or the value returned, with the optimizer and the counter
  after the call.
\<close>

definition fallback ::
  "bool \<Rightarrow> Optimizer \<Rightarrow> 64 word \<Rightarrow> (error + bool) \<times> Optimizer \<times> 64 word" where
  "fallback fail opt counter =
     (if \<not> fail then (Inr False, opt, 0)
      else
        (let opt' = reset opt in
         if unat counter > retry_attempt_limit (settings opt') then
           (Inl (RuntimeError ''Optimizer fail to compute path''), opt', 0)
         else (Inr True, opt', counter + 1)))"

text \<open>
  \<open>n\<close> consecutive failures: \<open>fallback(true)\<close> is called \<open>n\<close> times in a row, up
  to the call that throws. The result is the error thrown, if any, with the
  optimizer and the counter at the end.
\<close>

primrec consecutive_failures ::
  "nat \<Rightarrow> Optimizer \<Rightarrow> 64 word \<Rightarrow> error option \<times> Optimizer \<times> 64 word" where
  "consecutive_failures 0 opt counter = (None, opt, counter)"
| "consecutive_failures (Suc n) opt counter =
     (case fallback True opt counter of
        (Inl e, opt', counter') \<Rightarrow> (Some e, opt', counter')
      | (Inr again, opt', counter') \<Rightarrow> consecutive_failures n opt' counter')"

section \<open>One optimization pass\<close>

text \<open>
  The tensors of one pass have the shapes \<open>reset\<close> allocates, with at least one
  batch entry. The list operations below are total; they do not model what xtensor
  does when shapes disagree.

  The collaborators whose classes are not among the sources are parameters:
  \<open>NoiseGenerator::generate\<close> (the sample drawn and the generator afterwards),
  \<open>TrajectoryIntegrator::integrate\<close> (the trajectories written into its out
  parameter) and \<open>CriticManager::evalTrajectoriesScores\<close>, which reads the state,
  the trajectories, the plan and the goal checker and leaves new costs and a new
  fail flag in the critic data.
\<close>

record Collaborators =
  generate :: "NoiseGenerator \<Rightarrow> tensor3 \<times> NoiseGenerator"
  integrate :: "tensor3 \<Rightarrow> OptimizerSettings \<Rightarrow> State \<Rightarrow> bool \<Rightarrow> tensor3"
  evalTrajectoriesScores ::
    "State \<Rightarrow> tensor3 \<Rightarrow> tensor2 \<Rightarrow> nat \<Rightarrow> tensor1 \<Rightarrow> bool \<Rightarrow> tensor1 \<times> bool"

text \<open>\<open>xt::clip(v, lo, hi)\<close>.\<close>

definition clip :: "real \<Rightarrow> real \<Rightarrow> real \<Rightarrow> real" where
  "clip v lo hi = (if v < lo then lo else if hi < v then hi else v)"

text \<open>
  Assignment through a view of one column of a \<open>(B, H, C)\<close> tensor: in every row,
  column \<open>k\<close> receives the value computed from that row.
\<close>

definition assign_column :: "nat \<Rightarrow> (real list \<Rightarrow> real) \<Rightarrow> tensor3 \<Rightarrow> tensor3" where
  "assign_column k f T = map (map (\<lambda>row. row[k := f row])) T"

definition generateNoisedControls :: "Collaborators \<Rightarrow> Optimizer \<Rightarrow> Optimizer" where
  "generateNoisedControls env opt =
     (case generate env (noise_generator opt) of
        (noise, ng) \<Rightarrow>
          opt\<lparr>state := (state opt)
                 \<lparr>controls := map (map2 (map2 (+)) (data (control_sequence opt))) noise\<rparr>,
              noise_generator := ng\<rparr>)"

text \<open>
  Modelled from the spec: \<open>MotionModel::applyConstraints\<close>. DiffDrive and Omni
  change nothing; Ackermann bounds every \<open>cwz\<close> by \<open>|cvx| / min_turning_radius\<close>.
\<close>

fun MotionModel_applyConstraints :: "MotionModel \<Rightarrow> State \<Rightarrow> State" where
  "MotionModel_applyConstraints DiffDriveMotionModel st = st"
| "MotionModel_applyConstraints OmniMotionModel st = st"
| "MotionModel_applyConstraints (AckermannMotionModel r) st =
     st\<lparr>controls := assign_column (cwz_col (State.idx st))
          (\<lambda>row. clip (row ! cwz_col (State.idx st))
                    (- (\<bar>row ! cvx_col\<bar> / r)) (\<bar>row ! cvx_col\<bar> / r))
          (controls st)\<rparr>"

text \<open>
  \<open>applyControlConstraints\<close>. \<open>vx\<close>, \<open>vy\<close> and \<open>wz\<close> are views of the control
  columns of \<open>state_\<close>, so each assignment writes the state.
\<close>

definition applyControlConstraints :: "Optimizer \<Rightarrow> Optimizer" where
  "applyControlConstraints opt =
     (let s = settings opt;
          st1 = (if isHolonomic opt then
                   (state opt)\<lparr>controls := assign_column cvy_col
                      (\<lambda>row. clip (row ! cvy_col) (- ControlConstraints.vy (constraints s))
                                (ControlConstraints.vy (constraints s)))
                      (controls (state opt))\<rparr>
                 else state opt);
          st2 = MotionModel_applyConstraints (motion_model opt) st1;
          st3 = st2\<lparr>controls := assign_column cvx_col
                  (\<lambda>row. clip (row ! cvx_col) (- ControlConstraints.vx (constraints s))
                            (ControlConstraints.vx (constraints s)))
                  (controls st2)\<rparr>;
          st4 = st3\<lparr>controls := assign_column (cwz_col (State.idx st3))
                  (\<lambda>row. clip (row ! cwz_col (State.idx st3))
                            (- ControlConstraints.wz (constraints s))
                            (ControlConstraints.wz (constraints s)))
                  (controls st3)\<rparr>
      in opt\<lparr>state := st4\<rparr>)"

text \<open>
  What \<open>applyControlConstraints\<close> does to one control row: the clip of \<open>cvy\<close> for
  a holonomic model, the constraint of the motion model, then the clips of \<open>cvx\<close>
  and \<open>cwz\<close>.
\<close>

definition constrain_row :: "Optimizer \<Rightarrow> real list \<Rightarrow> real list" where
  "constrain_row opt row =
     (let s = settings opt;
          layout = State.idx (state opt);
          row1 = (if isHolonomic opt then
                    row[cvy_col := clip (row ! cvy_col) (- ControlConstraints.vy (constraints s))
                                     (ControlConstraints.vy (constraints s))]
                  else row);
          row2 = (case motion_model opt of
                    AckermannMotionModel r \<Rightarrow>
                      row1[cwz_col layout := clip (row1 ! cwz_col layout)
                             (- (\<bar>row1 ! cvx_col\<bar> / r)) (\<bar>row1 ! cvx_col\<bar> / r)]
                  | _ \<Rightarrow> row1);
          row3 = row2[cvx_col := clip (row2 ! cvx_col) (- ControlConstraints.vx (constraints s))
                                   (ControlConstraints.vx (constraints s))]
      in row3[cwz_col layout := clip (row3 ! cwz_col layout)
                (- ControlConstraints.wz (constraints s)) (ControlConstraints.wz (constraints s))])"

text \<open>
  \<open>updateInitialStateVelocities\<close> writes the measured speed of \<open>state_\<close> (the
  optimizer's own state, also when another state is passed) into time step 0 of the
  velocity slice, whose columns are laid out as the control columns are.
\<close>

definition updateInitialStateVelocities :: "Optimizer \<Rightarrow> State \<Rightarrow> State" where
  "updateInitialStateVelocities opt st =
     st\<lparr>velocities := map (\<lambda>m. case m of [] \<Rightarrow> [] | row # rows \<Rightarrow>
          (let row1 = row[cvx_col := linear_x (speed (state opt))];
               row2 = row1[cwz_col (State.idx st) := angular_z (speed (state opt))];
               row3 = (if isHolonomic opt then row2[cvy_col := linear_y (speed (state opt))]
                       else row2)
           in row3 # rows)) (velocities st)\<rparr>"

text \<open>
  Modelled from the spec: \<open>MotionModel::predict\<close> is the identity on the controls,
  so the velocities of time step \<open>i + 1\<close> are the controls of time step \<open>i\<close>.
  \<open>propagateStateVelocitiesFromInitials\<close> does that for \<open>i < time_steps - 1\<close>.
\<close>

definition propagateStateVelocitiesFromInitials :: "Optimizer \<Rightarrow> State \<Rightarrow> State" where
  "propagateStateVelocitiesFromInitials opt st =
     st\<lparr>velocities := map2 (\<lambda>vel ctrl. take 1 vel @ take (length vel - 1) ctrl)
          (velocities st) (controls st)\<rparr>"

definition updateStateVelocities :: "Optimizer \<Rightarrow> State \<Rightarrow> State" where
  "updateStateVelocities opt st =
     propagateStateVelocitiesFromInitials opt (updateInitialStateVelocities opt st)"

definition generateNoisedTrajectories :: "Collaborators \<Rightarrow> Optimizer \<Rightarrow> Optimizer" where
  "generateNoisedTrajectories env opt =
     (let opt1 = applyControlConstraints (generateNoisedControls env opt);
          opt2 = opt1\<lparr>state := updateStateVelocities opt1 (state opt1)\<rparr>
      in opt2\<lparr>generated_trajectories :=
           integrate env (generated_trajectories opt2) (settings opt2) (state opt2)
             (isHolonomic opt2)\<rparr>)"

definition evalScores :: "Collaborators \<Rightarrow> Optimizer \<Rightarrow> Optimizer" where
  "evalScores env opt =
     (case evalTrajectoriesScores env (state opt) (generated_trajectories opt) (plan opt)
             (goal_checker opt) (costs opt) (fail_flag opt) of
        (c, f) \<Rightarrow> opt\<lparr>costs := c, fail_flag := f\<rparr>)"

text \<open>\<open>xt::amin\<close> and the sum over the batch axis, for a batch that is not empty.\<close>

definition amin :: "tensor1 \<Rightarrow> real" where
  "amin c = fold min (tl c) (hd c)"

definition sum_axis0 :: "tensor3 \<Rightarrow> tensor2" where
  "sum_axis0 T = fold (map2 (map2 (+))) (tl T) (hd T)"

definition updateControlSequence :: "Optimizer \<Rightarrow> Optimizer" where
  "updateControlSequence opt =
     (let costs_normalized = map (\<lambda>c. c - amin (costs opt)) (costs opt);
          exponents = map (\<lambda>c. exp (- 1 / temperature (settings opt) * c)) costs_normalized;
          softmaxes = map (\<lambda>e. e / sum_list exponents) exponents;
          weighted = map2 (\<lambda>ctrl w. map (map (\<lambda>u. u * w)) ctrl)
                       (controls (state opt)) softmaxes
      in opt\<lparr>control_sequence := (control_sequence opt)\<lparr>data := sum_axis0 weighted\<rparr>\<rparr>)"

text \<open>
  The softmax weight of batch entry \<open>b\<close> as the specification writes it:
  \<open>exp (-(c[b] - min c) / temperature)\<close> over the sum of these terms.
\<close>

definition softmax_weight :: "real \<Rightarrow> tensor1 \<Rightarrow> nat \<Rightarrow> real" where
  "softmax_weight lam c b =
     exp (- (c ! b - Min (set c)) / lam) / (\<Sum>b' < length c. exp (- (c ! b' - Min (set c)) / lam))"

definition optimize :: "Collaborators \<Rightarrow> Optimizer \<Rightarrow> Optimizer" where
  "optimize env opt =
     ((\<lambda>o1. updateControlSequence (evalScores env (generateNoisedTrajectories env o1)))
        ^^ iteration_count (settings opt)) opt"

section \<open>One control tick\<close>

text \<open>Modelled from the spec: \<open>utils::toTensor\<close> makes the \<open>(K, 3)\<close> path tensor.\<close>

definition toTensor :: "Path \<Rightarrow> tensor2" where
  "toTensor path = map (\<lambda>(px, py, yaw). [px, py, yaw]) (poses path)"

definition prepare :: "Pose \<Rightarrow> Twist \<Rightarrow> Path \<Rightarrow> nat \<Rightarrow> Optimizer \<Rightarrow> Optimizer" where
  "prepare robot_pose robot_speed path checker opt =
     opt\<lparr>state := (state opt)\<lparr>pose := robot_pose, speed := robot_speed\<rparr>,
         plan := toTensor path,
         costs := map (\<lambda>_. 0) (costs opt),
         fail_flag := False,
         goal_checker := checker\<rparr>"

text \<open>
  The loop \<open>do { optimize(); } while (fallback(critics_data_.fail_flag));\<close>. It may
  run forever, so not returning is the value \<open>None\<close>. \<open>passes\<close> counts the calls of
  \<open>optimize\<close>; it is returned with the outcome, the optimizer and the counter.
\<close>

partial_function (option) retry_loop ::
  "Collaborators \<Rightarrow> Optimizer \<Rightarrow> 64 word \<Rightarrow> nat
     \<Rightarrow> ((error + unit) \<times> Optimizer \<times> 64 word \<times> nat) option" where
  "retry_loop env opt counter passes =
     (case fallback (fail_flag (optimize env opt)) (optimize env opt) counter of
        (Inl e, opt', counter') \<Rightarrow> Some (Inl e, opt', counter', Suc passes)
      | (Inr again, opt', counter') \<Rightarrow>
          if again then retry_loop env opt' counter' (Suc passes)
          else Some (Inr (), opt', counter', Suc passes))"

text \<open>
  Modelled from the spec and the conversion test: \<open>utils::toTwistStamped\<close> reads
  \<open>vx\<close>, \<open>wz\<close> and, for a holonomic model, \<open>vy\<close> from the row; \<open>linear.y\<close> is \<open>0\<close>
  otherwise.
\<close>

definition toTwistStamped :: "real list \<Rightarrow> bool \<Rightarrow> bool \<Rightarrow> nat \<Rightarrow> string \<Rightarrow> TwistStamped" where
  "toTwistStamped row layout holonomic time frame =
     \<lparr>twist = \<lparr>linear_x = row ! cvx_col,
                linear_y = (if holonomic then row ! cvy_col else 0),
                angular_z = row ! cwz_col layout\<rparr>,
      stamp = time, frame_id = frame\<rparr>"

text \<open>
  \<open>getControlFromSequenceAsTwist\<close>. \<open>xt::view(control_sequence_.data, offset)\<close> is
  row \<open>offset\<close>; past the end it is an access out of bounds.
\<close>

definition getControlFromSequenceAsTwist :: "nat \<Rightarrow> Optimizer \<Rightarrow> error + TwistStamped" where
  "getControlFromSequenceAsTwist time opt =
     (let offset = (if shift_control_sequence (settings opt) then 1 else 0 :: nat) in
      if offset < length (data (control_sequence opt)) then
        Inr (toTwistStamped (data (control_sequence opt) ! offset)
               (ControlSequence.idx (control_sequence opt)) (isHolonomic opt) time
               (base_frame_id opt))
      else Inl OutOfBounds)"

text \<open>
  \<open>shiftControlSequence\<close>: \<open>xt::roll(data, -1, 0)\<close> moves row \<open>t + 1\<close> to row \<open>t\<close>
  and row \<open>0\<close> to the end; then the last row receives the row before it. With fewer
  than two rows the view at \<open>-2\<close> is out of bounds.
\<close>

definition shiftControlSequence :: "Optimizer \<Rightarrow> error + Optimizer" where
  "shiftControlSequence opt =
     (let rolled = rotate1 (data (control_sequence opt));
          h = length rolled
      in if h < 2 then Inl OutOfBounds
         else Inr (opt\<lparr>control_sequence := (control_sequence opt)
                     \<lparr>data := rolled[h - 1 := rolled ! (h - 2)]\<rparr>\<rparr>))"

text \<open>
  \<open>evalControl\<close>: the error or the control emitted, with the optimizer and the
  retry counter after the tick; \<open>None\<close> when the retry loop does not return.
\<close>

definition evalControl ::
  "Collaborators \<Rightarrow> Pose \<Rightarrow> Twist \<Rightarrow> Path \<Rightarrow> nat \<Rightarrow> Optimizer \<Rightarrow> 64 word
     \<Rightarrow> ((error + TwistStamped) \<times> Optimizer \<times> 64 word) option" where
  "evalControl env robot_pose robot_speed path checker opt counter =
     (case retry_loop env (prepare robot_pose robot_speed path checker opt) counter 0 of
        None \<Rightarrow> None
      | Some (Inl e, opt1, counter1, n) \<Rightarrow> Some (Inl e, opt1, counter1)
      | Some (Inr u, opt1, counter1, n) \<Rightarrow>
          (case getControlFromSequenceAsTwist (header_stamp path) opt1 of
             Inl e \<Rightarrow> Some (Inl e, opt1, counter1)
           | Inr control \<Rightarrow>
               if shift_control_sequence (settings opt1) then
                 (case shiftControlSequence opt1 of
                    Inl e \<Rightarrow> Some (Inl e, opt1, counter1)
                  | Inr opt2 \<Rightarrow> Some (Inr control, opt2, counter1))
               else Some (Inr control, opt1, counter1)))"

section \<open>The optimized trajectory\<close>

text \<open>
  Modelled from the spec: \<open>TrajectoryIntegrator::integrate\<close>, which is not among the
  sources. For every batch entry of the state it writes the poses \<open>(x, y, yaw)\<close> of
  the time steps \<open>0 \<le> t < H\<close>: the pose of the state at \<open>t = 0\<close>, and at \<open>t + 1\<close>
  the pose of \<open>t\<close> advanced by the velocities of \<open>t\<close> over \<open>model_dt\<close>, the
  translation with the yaw of \<open>t\<close>; the \<open>vy\<close> term is \<open>0\<close> for a model that is not
  holonomic. The out parameter receives the result whatever it held before.
\<close>

fun integrate_poses :: "bool \<Rightarrow> real \<Rightarrow> Pose \<Rightarrow> real list list \<Rightarrow> tensor2" where
  "integrate_poses holonomic dt (px, py, yaw) [] = []"
| "integrate_poses holonomic dt (px, py, yaw) (v # vs) =
     [px, py, yaw] #
     integrate_poses holonomic dt
       (px + (v ! cvx_col * cos yaw - (if holonomic then v ! cvy_col else 0) * sin yaw) * dt,
        py + (v ! cvx_col * sin yaw + (if holonomic then v ! cvy_col else 0) * cos yaw) * dt,
        yaw + v ! cwz_col holonomic * dt)
       vs"

definition TrajectoryIntegrator_integrate ::
  "tensor3 \<Rightarrow> OptimizerSettings \<Rightarrow> State \<Rightarrow> bool \<Rightarrow> tensor3" where
  "TrajectoryIntegrator_integrate T s st holonomic =
     map (integrate_poses holonomic (model_dt s) (pose st)) (velocities st)"

text \<open>
  A default-constructed \<open>models::State\<close>: no data, the pose and the speed zero.
\<close>

definition State_default :: State where
  "State_default =
     \<lparr>controls = [], velocities = [], time_intervals = [], idx = False, pose = (0, 0, 0),
      speed = \<lparr>linear_x = 0, linear_y = 0, angular_z = 0\<rparr>\<rparr>"

text \<open>
  The local state of \<open>getOptimizedTrajectory\<close>: the layout of the motion model, a
  batch of one, the control sequence assigned to the control slice (broadcast over the
  batch), the time intervals, and the velocities.
\<close>

definition optimized_state :: "Optimizer \<Rightarrow> State" where
  "optimized_state opt =
     (let st0 = State_default\<lparr>State.idx := isHolonomic opt\<rparr>;
          st1 = State_reset 1 (time_steps (settings opt)) st0;
          st2 = st1\<lparr>controls := map (\<lambda>_. data (control_sequence opt)) (controls st1)\<rparr>;
          st3 = assignTimeIntervals (model_dt (settings opt)) st2
      in updateStateVelocities opt st3)"

text \<open>
  \<open>xtensor::from_shape\<close> of the shape of a tensor: the entries are not initialised
  in the source and are \<open>0\<close> here.
\<close>

definition from_shape_of :: "tensor3 \<Rightarrow> tensor3" where
  "from_shape_of T = map (map (map (\<lambda>_. 0))) T"

text \<open>
  \<open>xt::squeeze\<close> drops every axis of length 1, and the result is returned as a
  tensor of rank 2. For a batch of one with at least two rows of at least two
  numbers that is the matrix of the single batch entry; a tensor of any other shape
  does not squeeze to rank 2 along the batch axis and is a shape error here.
\<close>

definition squeeze :: "tensor3 \<Rightarrow> error + tensor2" where
  "squeeze T =
     (case T of
        [m] \<Rightarrow> if 2 \<le> length m \<and> list_all (\<lambda>row. 2 \<le> length row) m then Inr m
               else Inl ShapeError
      | _ \<Rightarrow> Inl ShapeError)"

definition getOptimizedTrajectory :: "Collaborators \<Rightarrow> Optimizer \<Rightarrow> error + tensor2" where
  "getOptimizedTrajectory env opt =
     (let trajectories = from_shape_of (generated_trajectories opt)
      in squeeze (integrate env trajectories (settings opt) (optimized_state opt)
                    (isHolonomic opt)))"

section \<open>Example objects\<close>

definition example_settings :: OptimizerSettings where
  "example_settings =
     \<lparr>model_dt = 1 / 10, time_steps = 3, batch_size = 2, iteration_count = 1,
      temperature = 1 / 4,
      base_constraints = \<lparr>vx = 1 / 2, vy = 1 / 4, wz = 1\<rparr>,
      constraints = \<lparr>vx = 1 / 2, vy = 1 / 4, wz = 1\<rparr>,
      sampling_std = \<lparr>SamplingStd.vx = 1 / 5, SamplingStd.vy = 1 / 5, SamplingStd.wz = 1\<rparr>,
      retry_attempt_limit = 1, shift_control_sequence = False\<rparr>"

definition example_optimizer :: Optimizer where
  "example_optimizer =
     \<lparr>settings = example_settings,
      state = \<lparr>controls = [], velocities = [], time_intervals = [], idx = True,
                pose = (0, 0, 0),
                speed = \<lparr>linear_x = 0, linear_y = 0, angular_z = 0\<rparr>\<rparr>,
      control_sequence = \<lparr>data = [], idx = True\<rparr>,
      costs = [],
      generated_trajectories = [],
      plan = [],
      noise_generator = \<lparr>noises = [], engine = 0\<rparr>,
      motion_model = OmniMotionModel,
      fail_flag = False,
      goal_checker = 0,
      base_frame_id = ''base_link'',
      logger = []\<rparr>"

text \<open>
  An optimizer after sampling, with controls beyond the constraints, and an Ackermann
  optimizer with one sampled control row.
\<close>

definition sampled_optimizer :: Optimizer where
  "sampled_optimizer =
     example_optimizer
       \<lparr>state := (state example_optimizer)
          \<lparr>controls := [[[1, 1 / 2, - 2], [1 / 10, 0, 0]], [[- 1, - 1, 3], [0, 0, 0]]]\<rparr>,
        costs := [1, 1]\<rparr>"

definition ackermann_optimizer :: Optimizer where
  "ackermann_optimizer =
     example_optimizer
       \<lparr>state := (state example_optimizer)\<lparr>controls := [[[1, 5]]], State.idx := False\<rparr>,
        control_sequence := (control_sequence example_optimizer)\<lparr>idx := False\<rparr>,
        motion_model := AckermannMotionModel 1\<rparr>"

text \<open>
  A reset optimizer with a warm control sequence, the same with shifting on, and the
  inputs of a tick.
\<close>

definition warm_optimizer :: Optimizer where
  "warm_optimizer =
     (reset example_optimizer)
       \<lparr>control_sequence := \<lparr>data = [[1 / 10, 0, 0], [1 / 5, 0, 0], [3 / 10, 0, 0]], idx = True\<rparr>\<rparr>"

definition shifting_optimizer :: Optimizer where
  "shifting_optimizer =
     warm_optimizer\<lparr>settings := (settings warm_optimizer)\<lparr>shift_control_sequence := True\<rparr>\<rparr>"

definition example_path :: Path where
  "example_path = \<lparr>header_stamp = 7, poses = [(0, 0, 0), (1, 0, 0)]\<rparr>"

definition example_speed :: Twist where
  "example_speed = \<lparr>linear_x = 0, linear_y = 0, angular_z = 0\<rparr>"

text \<open>
  Collaborators: a noise generator that returns its zero buffer, critics that leave
  the costs and the fail flag as they are, critics that always fail, and the
  collaborators with the integrator of the specification.
\<close>

definition example_collaborators :: Collaborators where
  "example_collaborators =
     \<lparr>generate = (\<lambda>ng. (noises ng, ng)),
      integrate = (\<lambda>T s st holonomic. T),
      evalTrajectoriesScores = (\<lambda>st T P checker c failed. (c, failed))\<rparr>"

definition failing_collaborators :: Collaborators where
  "failing_collaborators =
     \<lparr>generate = (\<lambda>ng. (noises ng, ng)),
      integrate = (\<lambda>T s st holonomic. T),
      evalTrajectoriesScores = (\<lambda>st T P checker c failed. (c, True))\<rparr>"

definition spec_collaborators :: Collaborators where
  "spec_collaborators = example_collaborators\<lparr>integrate := TrajectoryIntegrator_integrate\<rparr>"

lemmas sampled_defs = sampled_optimizer_def example_optimizer_def example_settings_def

lemmas example_defs = warm_optimizer_def example_optimizer_def example_settings_def
  example_collaborators_def example_path_def example_speed_def

lemmas pass_defs = optimize_def generateNoisedTrajectories_def generateNoisedControls_def
  applyControlConstraints_def updateStateVelocities_def updateInitialStateVelocities_def
  propagateStateVelocitiesFromInitials_def evalScores_def updateControlSequence_def
  prepare_def reset_def State_reset_def ControlSequence_reset_def NoiseGenerator_reset_def
  assignTimeIntervals_def zeros1_def zeros2_def zeros3_def isHolonomic_def control_dim_def
  assign_column_def clip_def cvx_col_def cvy_col_def cwz_col_def amin_def sum_axis0_def
  toTensor_def Let_def

lemmas tick_defs = example_defs pass_defs numeral_2_eq_2 numeral_3_eq_3

section \<open>Properties of the configuration\<close>

text \<open>
  C4. With an absolute limit the source scales \<open>base_constraints.vx\<close>, not
  \<open>base_constraints.vy\<close>, into \<open>constraints.vy\<close>: for the base constraints
  \<open>(0.5, 0.25, 1.0)\<close> and the absolute limit \<open>0.25\<close> it stores \<open>vy = 0.25\<close>,
  where the proportional scaling of the base \<open>vy\<close> by \<open>limit / base.vx\<close> is \<open>0.125\<close>;
  \<open>vx = 0.25\<close> and \<open>wz = 0.5\<close> are the limit and the scaled base \<open>wz\<close>.
\<close>

theorem setSpeedLimit_absolute_vy:
  "ControlConstraints.vy (constraints (settings (setSpeedLimit (1 / 4) False example_optimizer)))
     = 1 / 4
   \<and> ControlConstraints.vy (base_constraints (settings example_optimizer))
       * ((1 / 4) / ControlConstraints.vx (base_constraints (settings example_optimizer)))
     = 1 / 8
   \<and> ControlConstraints.vx (constraints (settings (setSpeedLimit (1 / 4) False example_optimizer)))
     = 1 / 4
   \<and> ControlConstraints.wz (constraints (settings (setSpeedLimit (1 / 4) False example_optimizer)))
     = 1 / 2"
  by (simp add: setSpeedLimit_def example_optimizer_def example_settings_def
      NO_SPEED_LIMIT_def Let_def)

text \<open>
  The absolute value in the second test of \<open>setOffset\<close> has no effect: that test is
  reached only with a period that is not below \<open>model_dt\<close>, and the rounded difference
  of such a period is not negative. The tolerance therefore reaches upwards only.
\<close>

lemma setOffset_abs_dead:
  assumes "\<forall>x. 0 \<le> x \<longrightarrow> 0 \<le> fl x"
  shows "setOffset fl f opt =
     (if f = 0 then
        Inl (RuntimeError ''Controller period more then model dt, set it equal to model dt'')
      else if fl (1 / f) < model_dt (settings opt) then
        Inr (opt\<lparr>logger := logger opt @
          [''Controller period is less then model dt, consider setting it equal'']\<rparr>)
      else if fl (fl (1 / f) - model_dt (settings opt)) < fl (1 / 10 ^ 6) then
        Inr (opt\<lparr>logger := logger opt @
               [''Controller period is equal to model dt. Control seuqence shifting is ON''],
             settings := (settings opt)\<lparr>shift_control_sequence := True\<rparr>\<rparr>)
      else
        Inl (RuntimeError ''Controller period more then model dt, set it equal to model dt''))"
proof -
  have "\<bar>fl (fl (1 / f) - model_dt (settings opt))\<bar> = fl (fl (1 / f) - model_dt (settings opt))"
    if "\<not> fl (1 / f) < model_dt (settings opt)"
  proof -
    from that have "0 \<le> fl (1 / f) - model_dt (settings opt)"
      by simp
    with assms have "0 \<le> fl (fl (1 / f) - model_dt (settings opt))"
      by blast
    then show ?thesis
      by simp
  qed
  then show ?thesis
    by (simp add: setOffset_def Let_def)
qed

text \<open>
  C8. For \<open>model_dt = 0.1\<close> and the controller frequency \<open>10.00001\<close> (each up to the
  rounding of its decimal literal) and every rounding \<open>fl\<close> with the relative error
  of round-to-nearest doubles, at most \<open>2^-53\<close>: the computed period, about
  \<open>0.0999999\<close>, equals \<open>model_dt\<close> within the tolerance \<open>1e-6\<close>, and \<open>setOffset\<close> takes
  its first branch. It logs the warning and leaves the settings, and so
  \<open>shift_control_sequence\<close>, as they were.
\<close>

theorem setOffset_below_within_tolerance:
  assumes acc: "\<forall>x. \<bar>fl x - x\<bar> \<le> \<bar>x\<bar> / 2 ^ 53"
    and dt: "\<bar>model_dt (settings opt) - 1 / 10\<bar> \<le> 1 / 10 ^ 17"
    and freq: "\<bar>f - 1000001 / 100000\<bar> \<le> 1 / 10 ^ 14"
  shows "\<bar>fl (1 / f) - model_dt (settings opt)\<bar> < 1 / 10 ^ 6
     \<and> fl (1 / f) < model_dt (settings opt)
     \<and> setOffset fl f opt
         = Inr (opt\<lparr>logger := logger opt @
             [''Controller period is less then model dt, consider setting it equal'']\<rparr>)"
proof -
  let ?x = "1 / f"
  have f_lo: "1000000999 / 100000000 \<le> f" and f_hi: "f \<le> 1000001001 / 100000000"
  proof -
    from freq have "f - 1000001 / 100000 \<le> 1 / 10 ^ 14" and "- (f - 1000001 / 100000) \<le> 1 / 10 ^ 14"
      unfolding abs_le_iff by blast+
    then show "1000000999 / 100000000 \<le> f" and "f \<le> 1000001001 / 100000000"
      by simp_all
  qed
  have f_pos: "0 < f"
    using f_lo by simp
  have x_hi: "?x \<le> 100000000 / 1000000999"
    using f_lo f_pos by (simp add: field_simps)
  have x_lo: "100000000 / 1000001001 \<le> ?x"
    using f_hi f_pos by (simp add: field_simps)
  have x_pos: "0 < ?x"
    using f_pos by simp
  have "\<bar>fl ?x - ?x\<bar> \<le> \<bar>?x\<bar> / 2 ^ 53"
    using acc by blast
  then have near: "\<bar>fl ?x - ?x\<bar> \<le> ?x / 9007199254740992"
    using x_pos by simp
  have p_hi: "fl ?x \<le> 999999002 / 10000000000"
    using near x_hi by (simp add: abs_le_iff)
  have p_lo: "999998998 / 10000000000 \<le> fl ?x"
    using near x_lo x_hi by (simp add: abs_le_iff)
  have dt_lo: "1 / 10 - 1 / 10 ^ 17 \<le> model_dt (settings opt)"
    and dt_hi: "model_dt (settings opt) \<le> 1 / 10 + 1 / 10 ^ 17"
  proof -
    from dt have "model_dt (settings opt) - 1 / 10 \<le> 1 / 10 ^ 17"
      and "- (model_dt (settings opt) - 1 / 10) \<le> 1 / 10 ^ 17"
      unfolding abs_le_iff by blast+
    then show "1 / 10 - 1 / 10 ^ 17 \<le> model_dt (settings opt)"
      and "model_dt (settings opt) \<le> 1 / 10 + 1 / 10 ^ 17"
      by simp_all
  qed
  have below: "fl ?x < model_dt (settings opt)"
    using p_hi dt_lo by simp
  have close: "\<bar>fl ?x - model_dt (settings opt)\<bar> < 1 / 10 ^ 6"
    using p_lo p_hi dt_lo dt_hi by (simp add: abs_less_iff)
  have "f \<noteq> 0"
    using f_pos by simp
  then have "setOffset fl f opt
         = Inr (opt\<lparr>logger := logger opt @
             [''Controller period is less then model dt, consider setting it equal'']\<rparr>)"
    using below by (simp add: setOffset_def Let_def)
  with close below show ?thesis
    by simp
qed

theorem setOffset_below_within_tolerance_witness:
  "model_dt (settings example_optimizer) = 1 / 10
   \<and> \<not> shift_control_sequence (settings example_optimizer)
   \<and> \<bar>1 / (1000001 / 100000) - model_dt (settings example_optimizer)\<bar> < 1 / 10 ^ 6
   \<and> setOffset (\<lambda>x. x) (1000001 / 100000) example_optimizer
       = Inr (example_optimizer\<lparr>logger :=
           [''Controller period is less then model dt, consider setting it equal'']\<rparr>)
   \<and> \<not> shift_control_sequence (settings (example_optimizer\<lparr>logger :=
           [''Controller period is less then model dt, consider setting it equal'']\<rparr>))"
proof -
  have acc: "\<forall>x::real. \<bar>(\<lambda>x. x) x - x\<bar> \<le> \<bar>x\<bar> / 2 ^ 53"
    by simp
  have dt: "\<bar>model_dt (settings example_optimizer) - 1 / 10\<bar> \<le> 1 / 10 ^ 17"
    by (simp add: example_optimizer_def example_settings_def)
  have freq: "\<bar>(1000001 / 100000 :: real) - 1000001 / 100000\<bar> \<le> 1 / 10 ^ 14"
    by simp
  have off: "\<not> shift_control_sequence (settings example_optimizer)"
    and val: "model_dt (settings example_optimizer) = 1 / 10"
    and log: "logger example_optimizer = []"
    by (simp_all add: example_optimizer_def example_settings_def)
  show ?thesis
    using setOffset_below_within_tolerance [OF acc dt freq] off val
    by (simp add: log)
qed

section \<open>Properties of reset and the retry counter\<close>

lemma reset_settings [simp]: "settings (reset opt) = settings opt"
  by (simp add: reset_def Let_def)

lemma reset_calls_reset [simp]: "reset_calls (reset opt) = Suc (reset_calls opt)"
  by (simp add: reset_def reset_calls_def Let_def)

lemma funpow_reset_settings [simp]: "settings ((reset ^^ n) opt) = settings opt"
  by (induction n) simp_all

lemma funpow_reset_calls [simp]: "reset_calls ((reset ^^ n) opt) = reset_calls opt + n"
  by (induction n) simp_all

lemma unat_succ_le: "unat (c + 1 :: 64 word) \<le> unat c + 1"
  by (simp add: unat_word_ariths)

lemma unat_succ_eq:
  "unat (c :: 64 word) < 2 ^ 64 - 1 \<Longrightarrow> unat (c + 1) = unat c + 1"
  by (simp add: unat_word_ariths)

text \<open>
  C10. \<open>reset()\<close> leaves \<open>settings_\<close> as it is, and so do \<open>fallback\<close> and any
  number of consecutive failures; the constraints that \<open>setSpeedLimit\<close> installed
  and the base constraints are still there after a reset. The costs, the control
  sequence, the control and velocity slices of the state and the noise buffer are
  zero-filled with the current shapes, and every time interval is \<open>model_dt\<close>.
\<close>

theorem reset_keeps_settings:
  "settings (reset opt) = settings opt
   \<and> settings (fst (snd (fallback fail opt counter))) = settings opt
   \<and> settings (fst (snd (consecutive_failures n opt counter))) = settings opt
   \<and> constraints (settings (reset (setSpeedLimit speed_limit percentage opt)))
       = constraints (settings (setSpeedLimit speed_limit percentage opt))
   \<and> base_constraints (settings (reset (setSpeedLimit speed_limit percentage opt)))
       = base_constraints (settings opt)
   \<and> costs (reset opt) = replicate (batch_size (settings opt)) 0
   \<and> data (control_sequence (reset opt))
       = replicate (time_steps (settings opt))
           (replicate (control_dim (ControlSequence.idx (control_sequence opt))) 0)
   \<and> controls (state (reset opt))
       = replicate (batch_size (settings opt)) (replicate (time_steps (settings opt))
           (replicate (control_dim (State.idx (state opt))) 0))
   \<and> velocities (state (reset opt))
       = replicate (batch_size (settings opt)) (replicate (time_steps (settings opt))
           (replicate (control_dim (State.idx (state opt))) 0))
   \<and> time_intervals (state (reset opt))
       = replicate (batch_size (settings opt)) (replicate (time_steps (settings opt))
           (model_dt (settings opt)))
   \<and> noises (noise_generator (reset opt))
       = replicate (batch_size (settings opt)) (replicate (time_steps (settings opt))
           (replicate (control_dim (isHolonomic opt)) 0))"
proof -
  have fb: "settings (fst (snd (fallback fail opt' c))) = settings opt'" for fail opt' c
    by (simp add: fallback_def Let_def)
  have cf: "settings (fst (snd (consecutive_failures n opt counter))) = settings opt"
  proof (induction n arbitrary: opt counter)
    case 0
    show ?case by simp
  next
    case (Suc n)
    show ?case
      using Suc.IH [of "reset opt" "counter + 1"]
      by (simp add: fallback_def Let_def)
  qed
  show ?thesis
    by (simp add: fb cf)
      (simp add: reset_def setSpeedLimit_def Let_def State_reset_def ControlSequence_reset_def
        NoiseGenerator_reset_def assignTimeIntervals_def zeros1_def zeros2_def zeros3_def)
qed

lemma consecutive_failures_below:
  "unat counter + n \<le> retry_attempt_limit (settings opt) + 1 \<Longrightarrow>
   consecutive_failures n opt counter = (None, (reset ^^ n) opt, counter + of_nat n)"
proof (induction n arbitrary: opt counter)
  case 0
  then show ?case by simp
next
  case (Suc n)
  have le: "unat (counter + 1) + n \<le> retry_attempt_limit (settings (reset opt)) + 1"
    using Suc.prems unat_succ_le [of counter] by simp
  have no: "\<not> unat counter > retry_attempt_limit (settings (reset opt))"
    using Suc.prems by simp
  show ?case
    using Suc.IH [OF le] no
    by (simp add: fallback_def Let_def funpow_swap1 add.assoc)
qed

text \<open>
  The fatal error is raised by failure number \<open>retry_attempt_limit + 2\<close>: the counter
  is compared before it is incremented.
\<close>

lemma consecutive_failures_exhausted:
  "retry_attempt_limit (settings opt) + 1 < 2 ^ 64 \<Longrightarrow>
   unat counter + n = retry_attempt_limit (settings opt) + 1 \<Longrightarrow>
   consecutive_failures (Suc n) opt counter
     = (Some (RuntimeError ''Optimizer fail to compute path''), (reset ^^ Suc n) opt, 0)"
proof (induction n arbitrary: opt counter)
  case 0
  then show ?case
    by (simp add: fallback_def Let_def)
next
  case (Suc n)
  have small: "unat counter < 2 ^ 64 - 1"
    using Suc.prems by simp
  have step: "unat (counter + 1) = unat counter + 1"
    using small by (rule unat_succ_eq)
  have lim: "retry_attempt_limit (settings (reset opt)) + 1 < 2 ^ 64"
    using Suc.prems by simp
  have sum: "unat (counter + 1) + n = retry_attempt_limit (settings (reset opt)) + 1"
    using Suc.prems step by simp
  have no: "\<not> unat counter > retry_attempt_limit (settings (reset opt))"
    using Suc.prems by simp
  have "consecutive_failures (Suc (Suc n)) opt counter
      = consecutive_failures (Suc n) (reset opt) (counter + 1)"
    using no by (simp add: fallback_def Let_def)
  also have "\<dots> = (Some (RuntimeError ''Optimizer fail to compute path''),
      (reset ^^ Suc n) (reset opt), 0)"
    using lim sum by (rule Suc.IH)
  finally show ?case
    by (simp add: funpow_swap1)
qed

text \<open>
  C2 (amended). Starting from a cleared retry counter, \<open>n\<close> consecutive failures
  with \<open>n\<close> at most \<open>retry_attempt_limit\<close> raise no fatal error and call \<open>reset()\<close>
  exactly \<open>n\<close> times, once in each failing call of \<open>fallback\<close>.
\<close>

theorem consecutive_failures_resets:
  "n \<le> retry_attempt_limit (settings opt) \<Longrightarrow>
   \<exists>opt' counter'. consecutive_failures n opt 0 = (None, opt', counter')
      \<and> reset_calls opt' = reset_calls opt + n"
  using consecutive_failures_below [of 0 n opt] by simp

theorem consecutive_failures_resets_witness:
  "(1::nat) \<le> retry_attempt_limit (settings example_optimizer)
   \<and> (\<exists>opt' counter'. consecutive_failures 1 example_optimizer 0 = (None, opt', counter')
      \<and> reset_calls opt' = reset_calls example_optimizer + 1)"
proof -
  have h: "(1::nat) \<le> retry_attempt_limit (settings example_optimizer)"
    by (simp add: example_optimizer_def example_settings_def)
  show ?thesis
    using h consecutive_failures_resets [OF h] by simp
qed

text \<open>
  C2 as stated fails: with \<open>retry_attempt_limit = 1\<close> one failure calls \<open>reset()\<close>
  once, not twice, and two consecutive failures raise no fatal error although
  \<open>2 > 1\<close>.
\<close>

theorem consecutive_failures_claim_counterexample:
  "retry_attempt_limit (settings example_optimizer) = 1
   \<and> reset_calls (fst (snd (consecutive_failures 1 example_optimizer 0)))
       = reset_calls example_optimizer + 1
   \<and> reset_calls (fst (snd (consecutive_failures 1 example_optimizer 0)))
       \<noteq> reset_calls example_optimizer + (1 + 1)
   \<and> fst (consecutive_failures 2 example_optimizer 0) = None"
proof -
  have l: "retry_attempt_limit (settings example_optimizer) = 1"
    by (simp add: example_optimizer_def example_settings_def)
  have one: "consecutive_failures 1 example_optimizer 0
      = (None, (reset ^^ 1) example_optimizer, 0 + of_nat 1)"
    by (rule consecutive_failures_below) (simp add: l)
  have two: "consecutive_failures 2 example_optimizer 0
      = (None, (reset ^^ 2) example_optimizer, 0 + of_nat 2)"
    by (rule consecutive_failures_below) (simp add: l)
  show ?thesis
    unfolding one two by (simp add: l)
qed

text \<open>
  C3. The counter is shared by all optimizers of the process: after two failures of
  one optimizer (limit 1) the counter that a second optimizer reads is \<open>2\<close>, and the
  first failure of the second optimizer throws, where with a cleared counter it
  would have returned \<open>true\<close> for a retry.
\<close>

theorem fallback_counter_shared:
  "snd (snd (consecutive_failures 2 example_optimizer 0)) = 2
   \<and> fst (fallback True (example_optimizer\<lparr>base_frame_id := ''robot_b''\<rparr>)
        (snd (snd (consecutive_failures 2 example_optimizer 0))))
       = Inl (RuntimeError ''Optimizer fail to compute path'')
   \<and> fallback True (example_optimizer\<lparr>base_frame_id := ''robot_b''\<rparr>) 0
       = (Inr True, reset (example_optimizer\<lparr>base_frame_id := ''robot_b''\<rparr>), 1)"
proof -
  have l: "retry_attempt_limit (settings example_optimizer) = 1"
    by (simp add: example_optimizer_def example_settings_def)
  have two: "consecutive_failures 2 example_optimizer 0
      = (None, (reset ^^ 2) example_optimizer, 0 + of_nat 2)"
    by (rule consecutive_failures_below) (simp add: l)
  show ?thesis
    by (simp add: two fallback_def Let_def l)
qed

section \<open>Properties of one optimization pass\<close>

lemma generateNoisedControls_settings [simp]:
  "settings (generateNoisedControls env opt) = settings opt"
  by (simp add: generateNoisedControls_def split: prod.splits)

lemma applyControlConstraints_settings [simp]:
  "settings (applyControlConstraints opt) = settings opt"
  by (simp add: applyControlConstraints_def Let_def)

lemma generateNoisedTrajectories_settings [simp]:
  "settings (generateNoisedTrajectories env opt) = settings opt"
  by (simp add: generateNoisedTrajectories_def Let_def)

lemma evalScores_settings [simp]: "settings (evalScores env opt) = settings opt"
  by (simp add: evalScores_def split: prod.splits)

lemma updateControlSequence_settings [simp]:
  "settings (updateControlSequence opt) = settings opt"
  by (simp add: updateControlSequence_def Let_def)

lemma funpow_pass_settings:
  "settings (((\<lambda>o1. updateControlSequence (evalScores env (generateNoisedTrajectories env o1)))
      ^^ k) opt) = settings opt"
  by (induction k) simp_all

lemma optimize_settings [simp]: "settings (optimize env opt) = settings opt"
  by (simp add: optimize_def funpow_pass_settings)

lemma prepare_settings [simp]:
  "settings (prepare robot_pose robot_speed path checker opt) = settings opt"
  by (simp add: prepare_def)

subsection \<open>Control constraints\<close>

lemma clip_abs: "0 \<le> c \<Longrightarrow> \<bar>clip v (- c) c\<bar> \<le> c"
  by (auto simp add: clip_def abs_le_iff)

lemma applyControlConstraints_rows:
  "controls (state (applyControlConstraints opt))
     = map (map (constrain_row opt)) (controls (state opt))"
  by (cases "motion_model opt")
    (simp_all add: applyControlConstraints_def assign_column_def constrain_row_def Let_def
      comp_def)

lemma constrain_row_bounds:
  assumes len: "length row = control_dim (State.idx (state opt))"
    and layout: "State.idx (state opt) = isHolonomic opt"
    and vx: "0 \<le> ControlConstraints.vx (constraints (settings opt))"
    and vy: "0 \<le> ControlConstraints.vy (constraints (settings opt))"
    and wz: "0 \<le> ControlConstraints.wz (constraints (settings opt))"
  shows "length (constrain_row opt row) = length row"
    and "\<bar>constrain_row opt row ! cvx_col\<bar> \<le> ControlConstraints.vx (constraints (settings opt))"
    and "\<bar>constrain_row opt row ! cwz_col (isHolonomic opt)\<bar>
           \<le> ControlConstraints.wz (constraints (settings opt))"
    and "isHolonomic opt \<Longrightarrow>
         \<bar>constrain_row opt row ! cvy_col\<bar> \<le> ControlConstraints.vy (constraints (settings opt))"
proof -
  show "length (constrain_row opt row) = length row"
    by (simp add: constrain_row_def Let_def split: MotionModel.splits)
  show "\<bar>constrain_row opt row ! cvx_col\<bar> \<le> ControlConstraints.vx (constraints (settings opt))"
    using len layout vx
    by (simp add: constrain_row_def Let_def cvx_col_def cwz_col_def cvy_col_def control_dim_def
        clip_abs split: MotionModel.splits if_splits)
  show "\<bar>constrain_row opt row ! cwz_col (isHolonomic opt)\<bar>
           \<le> ControlConstraints.wz (constraints (settings opt))"
    using len layout wz
    by (simp add: constrain_row_def Let_def cvx_col_def cwz_col_def cvy_col_def control_dim_def
        clip_abs split: MotionModel.splits if_splits)
  show "\<bar>constrain_row opt row ! cvy_col\<bar> \<le> ControlConstraints.vy (constraints (settings opt))"
    if "isHolonomic opt"
    using that len layout vy
    by (cases "motion_model opt")
      (simp_all add: constrain_row_def Let_def cvx_col_def cwz_col_def cvy_col_def
        control_dim_def clip_abs isHolonomic_def)
qed

text \<open>
  C5. For an optimizer whose state has the layout of its motion model, whose control
  rows have the width of that layout and whose constraints are not negative: after
  \<open>applyControlConstraints\<close> the control slice has its shape, and for every batch index
  \<open>b\<close> and time step \<open>t\<close> the controls satisfy \<open>|cvx| \<le> constraints.vx\<close>,
  \<open>|cwz| \<le> constraints.wz\<close> and, for a holonomic model, \<open>|cvy| \<le> constraints.vy\<close>.
  This holds for DiffDrive, Omni and Ackermann alike: \<open>cvx\<close> and \<open>cwz\<close> are clipped
  after the constraint of the motion model has run, and the only holonomic model
  leaves \<open>cvy\<close> as the first clip made it.
\<close>

theorem applyControlConstraints_bounds:
  assumes shape: "\<forall>m \<in> set (controls (state opt)). \<forall>row \<in> set m.
                    length row = control_dim (State.idx (state opt))"
    and layout: "State.idx (state opt) = isHolonomic opt"
    and nonneg: "0 \<le> ControlConstraints.vx (constraints (settings opt))
               \<and> 0 \<le> ControlConstraints.vy (constraints (settings opt))
               \<and> 0 \<le> ControlConstraints.wz (constraints (settings opt))"
  shows "length (controls (state (applyControlConstraints opt))) = length (controls (state opt))
     \<and> (\<forall>b < length (controls (state opt)).
          length (controls (state (applyControlConstraints opt)) ! b)
            = length (controls (state opt) ! b)
          \<and> (\<forall>t < length (controls (state opt) ! b).
               \<bar>controls (state (applyControlConstraints opt)) ! b ! t ! cvx_col\<bar>
                 \<le> ControlConstraints.vx (constraints (settings opt))
             \<and> \<bar>controls (state (applyControlConstraints opt)) ! b ! t ! cwz_col (isHolonomic opt)\<bar>
                 \<le> ControlConstraints.wz (constraints (settings opt))
             \<and> (isHolonomic opt \<longrightarrow>
                 \<bar>controls (state (applyControlConstraints opt)) ! b ! t ! cvy_col\<bar>
                   \<le> ControlConstraints.vy (constraints (settings opt)))))"
proof (intro conjI allI impI)
  show "length (controls (state (applyControlConstraints opt))) = length (controls (state opt))"
    by (simp add: applyControlConstraints_rows)
next
  fix b assume b: "b < length (controls (state opt))"
  show "length (controls (state (applyControlConstraints opt)) ! b)
            = length (controls (state opt) ! b)"
    using b by (simp add: applyControlConstraints_rows)
next
  fix b t
  assume b: "b < length (controls (state opt))"
    and t: "t < length (controls (state opt) ! b)"
  let ?row = "controls (state opt) ! b ! t"
  have "controls (state opt) ! b \<in> set (controls (state opt))"
    using b by simp
  moreover have "?row \<in> set (controls (state opt) ! b)"
    using t by simp
  ultimately have len: "length ?row = control_dim (State.idx (state opt))"
    using shape by blast
  have row: "controls (state (applyControlConstraints opt)) ! b ! t = constrain_row opt ?row"
    using b t by (simp add: applyControlConstraints_rows)
  show "\<bar>controls (state (applyControlConstraints opt)) ! b ! t ! cvx_col\<bar>
                 \<le> ControlConstraints.vx (constraints (settings opt))"
    unfolding row using len layout nonneg by (intro constrain_row_bounds) simp_all
  show "\<bar>controls (state (applyControlConstraints opt)) ! b ! t ! cwz_col (isHolonomic opt)\<bar>
                 \<le> ControlConstraints.wz (constraints (settings opt))"
    unfolding row using len layout nonneg by (intro constrain_row_bounds) simp_all
  show "\<bar>controls (state (applyControlConstraints opt)) ! b ! t ! cvy_col\<bar>
                   \<le> ControlConstraints.vy (constraints (settings opt))"
    if "isHolonomic opt"
    unfolding row using that len layout nonneg by (intro constrain_row_bounds) simp_all
qed

theorem applyControlConstraints_bounds_witness:
  "controls (state sampled_optimizer)
     = [[[1, 1 / 2, - 2], [1 / 10, 0, 0]], [[- 1, - 1, 3], [0, 0, 0]]]
   \<and> constraints (settings sampled_optimizer) = \<lparr>vx = 1 / 2, vy = 1 / 4, wz = 1\<rparr>
   \<and> isHolonomic sampled_optimizer
   \<and> \<bar>controls (state (applyControlConstraints sampled_optimizer)) ! 0 ! 0 ! cvx_col\<bar> \<le> 1 / 2
   \<and> \<bar>controls (state (applyControlConstraints sampled_optimizer)) ! 0 ! 0 ! cwz_col True\<bar> \<le> 1
   \<and> \<bar>controls (state (applyControlConstraints sampled_optimizer)) ! 0 ! 0 ! cvy_col\<bar> \<le> 1 / 4
   \<and> controls (state (applyControlConstraints sampled_optimizer))
       = [[[1 / 2, 1 / 4, - 1], [1 / 10, 0, 0]], [[- (1 / 2), - (1 / 4), 1], [0, 0, 0]]]
   \<and> motion_model ackermann_optimizer = AckermannMotionModel 1
   \<and> controls (state ackermann_optimizer) = [[[1, 5]]]
   \<and> \<bar>controls (state (applyControlConstraints ackermann_optimizer)) ! 0 ! 0 ! cvx_col\<bar> \<le> 1 / 2
   \<and> \<bar>controls (state (applyControlConstraints ackermann_optimizer)) ! 0 ! 0 ! cwz_col False\<bar> \<le> 1
   \<and> controls (state (applyControlConstraints ackermann_optimizer)) = [[[1 / 2, 1]]]"
proof -
  have h1: "\<forall>m \<in> set (controls (state sampled_optimizer)). \<forall>row \<in> set m.
      length row = control_dim (State.idx (state sampled_optimizer))"
    by (simp add: sampled_defs ackermann_optimizer_def control_dim_def)
  have h2: "State.idx (state sampled_optimizer) = isHolonomic sampled_optimizer"
    by (simp add: sampled_defs ackermann_optimizer_def isHolonomic_def)
  have h3: "0 \<le> ControlConstraints.vx (constraints (settings sampled_optimizer))
               \<and> 0 \<le> ControlConstraints.vy (constraints (settings sampled_optimizer))
               \<and> 0 \<le> ControlConstraints.wz (constraints (settings sampled_optimizer))"
    by (simp add: sampled_defs ackermann_optimizer_def)
  have k1: "\<forall>m \<in> set (controls (state ackermann_optimizer)). \<forall>row \<in> set m.
      length row = control_dim (State.idx (state ackermann_optimizer))"
    by (simp add: sampled_defs ackermann_optimizer_def control_dim_def)
  have k2: "State.idx (state ackermann_optimizer) = isHolonomic ackermann_optimizer"
    by (simp add: sampled_defs ackermann_optimizer_def isHolonomic_def)
  have k3: "0 \<le> ControlConstraints.vx (constraints (settings ackermann_optimizer))
               \<and> 0 \<le> ControlConstraints.vy (constraints (settings ackermann_optimizer))
               \<and> 0 \<le> ControlConstraints.wz (constraints (settings ackermann_optimizer))"
    by (simp add: sampled_defs ackermann_optimizer_def)
  have hol: "isHolonomic sampled_optimizer" and nhol: "\<not> isHolonomic ackermann_optimizer"
    by (simp_all add: sampled_defs ackermann_optimizer_def isHolonomic_def)
  have c: "constraints (settings sampled_optimizer) = \<lparr>vx = 1 / 2, vy = 1 / 4, wz = 1\<rparr>"
    "constraints (settings ackermann_optimizer) = \<lparr>vx = 1 / 2, vy = 1 / 4, wz = 1\<rparr>"
    by (simp_all add: sampled_defs ackermann_optimizer_def)
  have l: "0 < length (controls (state sampled_optimizer))"
    "0 < length (controls (state sampled_optimizer) ! 0)"
    "0 < length (controls (state ackermann_optimizer))"
    "0 < length (controls (state ackermann_optimizer) ! 0)"
    by (simp_all add: sampled_defs ackermann_optimizer_def)
  note A = applyControlConstraints_bounds [OF h1 h2 h3, THEN conjunct2, rule_format, OF l(1),
      THEN conjunct2, rule_format, OF l(2)]
  note B = applyControlConstraints_bounds [OF k1 k2 k3, THEN conjunct2, rule_format, OF l(3),
      THEN conjunct2, rule_format, OF l(4)]
  have v1: "controls (state (applyControlConstraints sampled_optimizer))
       = [[[1 / 2, 1 / 4, - 1], [1 / 10, 0, 0]], [[- (1 / 2), - (1 / 4), 1], [0, 0, 0]]]"
    by (simp add: sampled_defs ackermann_optimizer_def applyControlConstraints_def
        assign_column_def clip_def isHolonomic_def cvx_col_def cvy_col_def cwz_col_def Let_def)
  have v2: "controls (state (applyControlConstraints ackermann_optimizer)) = [[[1 / 2, 1]]]"
    by (simp add: sampled_defs ackermann_optimizer_def applyControlConstraints_def
        assign_column_def clip_def isHolonomic_def cvx_col_def cvy_col_def cwz_col_def Let_def)
  show ?thesis
    using A B hol nhol v1 v2
    by (simp add: c) (simp add: sampled_defs ackermann_optimizer_def)
qed

subsection \<open>The softmax update\<close>

lemma amin_Min: "c \<noteq> [] \<Longrightarrow> amin c = Min (set c)"
proof (cases c)
  case Nil
  assume "c \<noteq> []"
  with Nil show ?thesis by simp
next
  case (Cons a cs)
  have "Min (set (a # cs)) = fold min cs a"
    by (rule Min.set_eq_fold)
  with Cons show ?thesis
    by (simp add: amin_def)
qed

lemma sum_list_map_nth: "sum_list (map f xs) = (\<Sum>i < length xs. f (xs ! i))"
proof -
  have "sum_list (map f xs) = (\<Sum>i = 0..<length (map f xs). map f xs ! i)"
    by (rule sum_list_sum_nth)
  also have "\<dots> = (\<Sum>i < length xs. f (xs ! i))"
    by (simp add: atLeast0LessThan)
  finally show ?thesis .
qed

lemma fold_add_shape:
  assumes "length a = h" "\<forall>row \<in> set a. length row = c"
    and "\<forall>m \<in> set xs. length m = h \<and> (\<forall>row \<in> set m. length row = c)"
  shows "length (fold (map2 (map2 (+))) xs a) = h
     \<and> (\<forall>t < h. length (fold (map2 (map2 (+))) xs a ! t) = c
          \<and> (\<forall>k < c. fold (map2 (map2 (+))) xs a ! t ! k
                = a ! t ! k + (\<Sum>b < length xs. xs ! b ! t ! (k::nat) :: real)))"
  using assms
proof (induction xs arbitrary: a)
  case Nil
  then show ?case by simp
next
  case (Cons x xs)
  let ?a = "map2 (map2 (+)) x a"
  have xh: "length x = h" and xc: "\<forall>row \<in> set x. length row = c"
    using Cons.prems(3) by simp_all
  have ah: "length ?a = h"
    using xh Cons.prems(1) by simp
  have rows: "length (?a ! t) = c \<and> (\<forall>k < c. ?a ! t ! k = x ! t ! k + a ! t ! k)" if "t < h" for t
  proof -
    have "x ! t \<in> set x" "a ! t \<in> set a"
      using that xh Cons.prems(1) by simp_all
    then have "length (x ! t) = c" "length (a ! t) = c"
      using xc Cons.prems(2) by simp_all
    then show ?thesis
      using that xh Cons.prems(1) by simp
  qed
  have ac: "\<forall>row \<in> set ?a. length row = c"
  proof
    fix row assume "row \<in> set ?a"
    then obtain t where t: "t < length ?a" and row: "row = ?a ! t"
      by (auto simp add: in_set_conv_nth)
    from t ah have "t < h"
      by (simp only:)
    from rows [OF this] row show "length row = c"
      by simp
  qed
  have rest: "\<forall>m \<in> set xs. length m = h \<and> (\<forall>row \<in> set m. length row = c)"
    using Cons.prems(3) by simp
  note IH = Cons.IH [OF ah ac rest]
  show ?case
  proof (intro conjI allI impI)
    show "length (fold (map2 (map2 (+))) (x # xs) a) = h"
      using IH by simp
  next
    fix t assume t: "t < h"
    show "length (fold (map2 (map2 (+))) (x # xs) a ! t) = c"
      using IH t by simp
  next
    fix t k assume t: "t < h" and k: "k < c"
    have "fold (map2 (map2 (+))) (x # xs) a ! t ! k
        = ?a ! t ! k + (\<Sum>b < length xs. xs ! b ! t ! k)"
      using IH t k by simp
    also have "\<dots> = a ! t ! k + (x ! t ! k + (\<Sum>b < length xs. xs ! b ! t ! k))"
      using rows [OF t] k by simp
    also have "x ! t ! k + (\<Sum>b < length xs. xs ! b ! t ! k)
        = (\<Sum>b < length (x # xs). (x # xs) ! b ! t ! k)"
      by (simp add: sum.lessThan_Suc_shift del: sum.lessThan_Suc)
    finally show "fold (map2 (map2 (+))) (x # xs) a ! t ! k
        = a ! t ! k + (\<Sum>b < length (x # xs). (x # xs) ! b ! t ! k)" .
  qed
qed

lemma sum_axis0_nth:
  assumes "T \<noteq> []"
    and "\<forall>m \<in> set T. length m = h \<and> (\<forall>row \<in> set m. length row = c)"
  shows "length (sum_axis0 T) = h
     \<and> (\<forall>t < h. length (sum_axis0 T ! t) = c
          \<and> (\<forall>k < c. sum_axis0 T ! t ! k = (\<Sum>b < length T. T ! b ! t ! k)))"
proof -
  obtain a xs where T: "T = a # xs"
    using assms(1) by (cases T) auto
  have "length a = h" "\<forall>row \<in> set a. length row = c"
    "\<forall>m \<in> set xs. length m = h \<and> (\<forall>row \<in> set m. length row = c)"
    using assms(2) T by simp_all
  from fold_add_shape [OF this]
  show ?thesis
    by (simp add: sum_axis0_def T sum.lessThan_Suc_shift del: sum.lessThan_Suc)
qed

lemma softmaxes_nth:
  assumes "c \<noteq> []" "b < length c"
  shows "map (\<lambda>e. e / sum_list (map (\<lambda>x. exp (- 1 / lam * x)) (map (\<lambda>y. y - amin c) c)))
           (map (\<lambda>x. exp (- 1 / lam * x)) (map (\<lambda>y. y - amin c) c)) ! b
         = softmax_weight lam c b"
proof -
  let ?M = "Min (set c)"
  have m: "amin c = ?M"
    using assms(1) by (rule amin_Min)
  have e: "exp (- 1 / lam * (y - ?M)) = exp (- (y - ?M) / lam)" for y
    by (simp add: diff_divide_distrib)
  have "sum_list (map (\<lambda>x. exp (- 1 / lam * x)) (map (\<lambda>y. y - amin c) c))
      = sum_list (map (\<lambda>y. exp (- 1 / lam * (y - ?M))) c)"
    by (simp only: map_map comp_def m)
  also have "\<dots> = (\<Sum>b' < length c. exp (- 1 / lam * (c ! b' - ?M)))"
    by (rule sum_list_map_nth)
  also have "\<dots> = (\<Sum>b' < length c. exp (- (c ! b' - ?M) / lam))"
    by (simp only: e)
  finally have total: "sum_list (map (\<lambda>x. exp (- 1 / lam * x)) (map (\<lambda>y. y - amin c) c))
      = (\<Sum>b' < length c. exp (- (c ! b' - ?M) / lam))" .
  have "map (\<lambda>e. e / sum_list (map (\<lambda>x. exp (- 1 / lam * x)) (map (\<lambda>y. y - amin c) c)))
           (map (\<lambda>x. exp (- 1 / lam * x)) (map (\<lambda>y. y - amin c) c)) ! b
      = exp (- 1 / lam * (c ! b - ?M))
          / sum_list (map (\<lambda>x. exp (- 1 / lam * x)) (map (\<lambda>y. y - amin c) c))"
    using assms(2) by (simp only: nth_map length_map m)
  also have "\<dots> = softmax_weight lam c b"
    by (simp only: total e softmax_weight_def)
  finally show ?thesis .
qed

lemma softmax_weight_nonneg: "c \<noteq> [] \<Longrightarrow> 0 \<le> softmax_weight lam c b"
  by (simp add: softmax_weight_def sum_nonneg)

lemma softmax_weight_sum: "c \<noteq> [] \<Longrightarrow> (\<Sum>b < length c. softmax_weight lam c b) = 1"
proof -
  assume ne: "c \<noteq> []"
  let ?e = "\<lambda>b. exp (- (c ! b - Min (set c)) / lam)"
  have pos: "0 < (\<Sum>b < length c. ?e b)"
    using ne by (intro sum_pos) (simp_all add: lessThan_empty_iff)
  have "(\<Sum>b < length c. softmax_weight lam c b) = (\<Sum>b < length c. ?e b) / (\<Sum>b < length c. ?e b)"
    by (simp only: softmax_weight_def sum_divide_distrib [symmetric])
  also have "\<dots> = 1"
    using pos by simp
  finally show ?thesis .
qed

text \<open>
  C1. For a batch that is not empty, with one cost per batch entry, sampled controls
  of shape \<open>(B, H, C)\<close> and a temperature other than \<open>0\<close>: after
  \<open>updateControlSequence\<close> the control sequence has shape \<open>(H, C)\<close> and each of its
  entries is the sum over the batch of \<open>w[b] * controls[b]\<close>, where \<open>w[b]\<close> is
  \<open>exp (-(c[b] - min c) / temperature)\<close> over the sum of these terms; the weights are
  not negative and sum to \<open>1\<close>.
\<close>

theorem updateControlSequence_softmax:
  assumes batch: "costs opt \<noteq> []"
    and same: "length (controls (state opt)) = length (costs opt)"
    and shape: "\<forall>m \<in> set (controls (state opt)). length m = H \<and> (\<forall>row \<in> set m. length row = C)"
    and temp: "temperature (settings opt) \<noteq> 0"
  shows "length (data (control_sequence (updateControlSequence opt))) = H
     \<and> (\<forall>t < H. length (data (control_sequence (updateControlSequence opt)) ! t) = C
          \<and> (\<forall>k < C. data (control_sequence (updateControlSequence opt)) ! t ! k
                = (\<Sum>b < length (costs opt).
                     softmax_weight (temperature (settings opt)) (costs opt) b
                       * controls (state opt) ! b ! t ! k)))
     \<and> (\<forall>b < length (costs opt). 0 \<le> softmax_weight (temperature (settings opt)) (costs opt) b)
     \<and> (\<Sum>b < length (costs opt). softmax_weight (temperature (settings opt)) (costs opt) b) = 1"
proof -
  let ?c = "costs opt"
  let ?lam = "temperature (settings opt)"
  let ?ctrl = "controls (state opt)"
  define sm where "sm = map (\<lambda>e. e / sum_list (map (\<lambda>x. exp (- 1 / ?lam * x)) (map (\<lambda>y. y - amin ?c) ?c)))
           (map (\<lambda>x. exp (- 1 / ?lam * x)) (map (\<lambda>y. y - amin ?c) ?c))"
  define W where "W = map2 (\<lambda>ctrl w. map (map (\<lambda>u. u * w)) ctrl) ?ctrl sm"
  have U: "data (control_sequence (updateControlSequence opt)) = sum_axis0 W"
    unfolding W_def sm_def by (simp add: updateControlSequence_def Let_def comp_def)
  have len_sm: "length sm = length ?c"
    by (simp add: sm_def)
  have sm_nth: "sm ! b = softmax_weight ?lam ?c b" if "b < length ?c" for b
    unfolding sm_def using batch that by (rule softmaxes_nth)
  have lenW: "length W = length ?c"
    by (simp add: W_def len_sm same)
  have Wb: "W ! b = map (map (\<lambda>u. u * softmax_weight ?lam ?c b)) (?ctrl ! b)"
    if "b < length ?c" for b
    using that by (simp add: W_def len_sm same sm_nth)
  have Wne: "W \<noteq> []"
    using batch lenW by (metis length_0_conv)
  have Wshape: "\<forall>m \<in> set W. length m = H \<and> (\<forall>row \<in> set m. length row = C)"
  proof
    fix m assume "m \<in> set W"
    then obtain b where b: "b < length W" and m: "m = W ! b"
      by (auto simp add: in_set_conv_nth)
    from b lenW have bc: "b < length ?c"
      by (simp only:)
    then have "?ctrl ! b \<in> set ?ctrl"
      using same by simp
    then have "length (?ctrl ! b) = H \<and> (\<forall>row \<in> set (?ctrl ! b). length row = C)"
      using shape by blast
    then show "length m = H \<and> (\<forall>row \<in> set m. length row = C)"
      unfolding m Wb [OF bc] by simp
  qed
  note S = sum_axis0_nth [OF Wne Wshape]
  have elem: "sum_axis0 W ! t ! k
      = (\<Sum>b < length ?c. softmax_weight ?lam ?c b * ?ctrl ! b ! t ! k)"
    if t: "t < H" and k: "k < C" for t k
  proof -
    have "sum_axis0 W ! t ! k = (\<Sum>b < length W. W ! b ! t ! k)"
      using S t k by blast
    also have "\<dots> = (\<Sum>b < length ?c. W ! b ! t ! k)"
      by (simp only: lenW)
    also have "\<dots> = (\<Sum>b < length ?c. softmax_weight ?lam ?c b * ?ctrl ! b ! t ! k)"
    proof (rule sum.cong [OF refl])
      fix b assume "b \<in> {..<length ?c}"
      then have bc: "b < length ?c"
        by simp
      then have "?ctrl ! b \<in> set ?ctrl"
        using same by simp
      then have h: "length (?ctrl ! b) = H" and r: "\<forall>row \<in> set (?ctrl ! b). length row = C"
        using shape by blast+
      have "?ctrl ! b ! t \<in> set (?ctrl ! b)"
        using t h by simp
      then have "length (?ctrl ! b ! t) = C"
        using r by blast
      then show "W ! b ! t ! k = softmax_weight ?lam ?c b * ?ctrl ! b ! t ! k"
        unfolding Wb [OF bc] using t k h by simp
    qed
    finally show ?thesis .
  qed
  have len: "length (sum_axis0 W) = H"
    using S by blast
  have row: "length (sum_axis0 W ! t) = C" if "t < H" for t
    using S that by blast
  show ?thesis
    unfolding U
  proof (intro conjI allI impI)
    show "length (sum_axis0 W) = H"
      by (rule len)
    show "length (sum_axis0 W ! t) = C" if "t < H" for t
      using that by (rule row)
    show "sum_axis0 W ! t ! k
      = (\<Sum>b < length ?c. softmax_weight ?lam ?c b * ?ctrl ! b ! t ! k)"
      if "t < H" "k < C" for t k
      using that by (rule elem)
    show "0 \<le> softmax_weight ?lam ?c b" for b
      using batch by (rule softmax_weight_nonneg)
    show "(\<Sum>b < length ?c. softmax_weight ?lam ?c b) = 1"
      using batch by (rule softmax_weight_sum)
  qed
qed

theorem updateControlSequence_softmax_witness:
  "costs sampled_optimizer = [1, 1]
   \<and> controls (state sampled_optimizer)
       = [[[1, 1 / 2, - 2], [1 / 10, 0, 0]], [[- 1, - 1, 3], [0, 0, 0]]]
   \<and> temperature (settings sampled_optimizer) = 1 / 4
   \<and> length (data (control_sequence (updateControlSequence sampled_optimizer))) = 2
   \<and> length (data (control_sequence (updateControlSequence sampled_optimizer)) ! 0) = 3
   \<and> data (control_sequence (updateControlSequence sampled_optimizer)) ! 0 ! 1
       = softmax_weight (1 / 4) [1, 1] 0 * controls (state sampled_optimizer) ! 0 ! 0 ! 1
         + softmax_weight (1 / 4) [1, 1] 1 * controls (state sampled_optimizer) ! 1 ! 0 ! 1
   \<and> 0 \<le> softmax_weight (1 / 4) [1, 1] 0
   \<and> 0 \<le> softmax_weight (1 / 4) [1, 1] 1
   \<and> softmax_weight (1 / 4) [1, 1] 0 + softmax_weight (1 / 4) [1, 1] 1 = 1
   \<and> data (control_sequence (updateControlSequence sampled_optimizer))
       = [[0, - (1 / 4), 1 / 2], [1 / 20, 0, 0]]"
proof -
  have c: "costs sampled_optimizer = [1, 1]"
    and u: "controls (state sampled_optimizer)
       = [[[1, 1 / 2, - 2], [1 / 10, 0, 0]], [[- 1, - 1, 3], [0, 0, 0]]]"
    and lam: "temperature (settings sampled_optimizer) = 1 / 4"
    by (simp_all add: sampled_defs)
  have h1: "costs sampled_optimizer \<noteq> []"
    by (simp add: c)
  have h2: "length (controls (state sampled_optimizer)) = length (costs sampled_optimizer)"
    by (simp add: c u)
  have h3: "\<forall>m \<in> set (controls (state sampled_optimizer)).
      length m = 2 \<and> (\<forall>row \<in> set m. length row = 3)"
    by (simp add: u)
  have h4: "temperature (settings sampled_optimizer) \<noteq> 0"
    by (simp add: lam)
  note T = updateControlSequence_softmax [OF h1 h2 h3 h4]
  have len: "length (data (control_sequence (updateControlSequence sampled_optimizer))) = 2"
    using T by (rule conjunct1)
  note rows = T [THEN conjunct2, THEN conjunct1, rule_format, of 0]
  have row0: "length (data (control_sequence (updateControlSequence sampled_optimizer)) ! 0) = 3"
    using rows by simp
  have el: "data (control_sequence (updateControlSequence sampled_optimizer)) ! 0 ! 1
       = softmax_weight (1 / 4) [1, 1] 0 * controls (state sampled_optimizer) ! 0 ! 0 ! 1
         + softmax_weight (1 / 4) [1, 1] 1 * controls (state sampled_optimizer) ! 1 ! 0 ! 1"
    using rows [THEN conjunct2, rule_format, of 1] by (simp add: c lam)
  note w = T [THEN conjunct2, THEN conjunct2, THEN conjunct1, rule_format]
  have w0: "0 \<le> softmax_weight (1 / 4) [1, 1] 0" and w1: "0 \<le> softmax_weight (1 / 4) [1, 1] 1"
    using w [of 0] w [of 1] by (simp_all add: c lam)
  have total: "softmax_weight (1 / 4) [1, 1] 0 + softmax_weight (1 / 4) [1, 1] 1 = 1"
    using T [THEN conjunct2, THEN conjunct2, THEN conjunct2] by (simp add: c lam)
  have val: "data (control_sequence (updateControlSequence sampled_optimizer))
       = [[0, - (1 / 4), 1 / 2], [1 / 20, 0, 0]]"
    by (simp add: sampled_defs updateControlSequence_def amin_def sum_axis0_def Let_def)
  show ?thesis
    using c u lam len row0 el w0 w1 total val by simp
qed

section \<open>Properties of one control tick\<close>

lemma retry_loop_bounded:
  "retry_attempt_limit (settings opt) + 1 < 2 ^ 64 \<Longrightarrow>
   retry_attempt_limit (settings opt) + 1 - unat counter = k \<Longrightarrow>
   \<exists>r opt' counter' n. retry_loop env opt counter passes = Some (r, opt', counter', n)
      \<and> n \<le> passes + k + 1
      \<and> settings opt' = settings opt
      \<and> (r = Inl (RuntimeError ''Optimizer fail to compute path'') \<or> r = Inr ())"
proof (induction k arbitrary: opt counter passes)
  case 0
  then have gt: "unat counter > retry_attempt_limit (settings opt)"
    by simp
  show ?case
    by (subst retry_loop.simps) (simp add: fallback_def Let_def gt)
next
  case (Suc k)
  let ?L = "retry_attempt_limit (settings opt)"
  let ?o1 = "optimize env opt"
  show ?case
  proof (cases "fail_flag ?o1")
    case False
    then show ?thesis
      by (subst retry_loop.simps) (simp add: fallback_def Let_def)
  next
    case True
    from Suc.prems have le: "unat counter \<le> ?L"
      by simp
    with Suc.prems have small: "unat counter < 2 ^ 64 - 1"
      by simp
    have step: "unat (counter + 1) = unat counter + 1"
      using small by (rule unat_succ_eq)
    have lim: "retry_attempt_limit (settings (reset ?o1)) + 1 < 2 ^ 64"
      using Suc.prems by simp
    have meas: "retry_attempt_limit (settings (reset ?o1)) + 1 - unat (counter + 1) = k"
      using Suc.prems step by simp
    from Suc.IH [OF lim meas, of "Suc passes"]
    obtain r opt' counter' n where
      run: "retry_loop env (reset ?o1) (counter + 1) (Suc passes) = Some (r, opt', counter', n)"
      and n: "n \<le> Suc passes + k + 1"
      and s: "settings opt' = settings (reset ?o1)"
      and r: "r = Inl (RuntimeError ''Optimizer fail to compute path'') \<or> r = Inr ()"
      by blast
    have "retry_loop env opt counter passes = Some (r, opt', counter', n)"
      using True le run by (subst retry_loop.simps) (simp add: fallback_def Let_def)
    with n s r show ?thesis
      by simp
  qed
qed

lemma retry_loop_settings:
  assumes "retry_loop env opt counter passes = Some y"
  shows "settings (fst (snd y)) = settings opt"
proof (rule retry_loop.raw_induct
    [where P = "\<lambda>env opt counter passes y. settings (fst (snd y)) = settings opt",
      OF _ assms])
  fix loop env opt counter passes y
  assume 1: "\<And>e opt' c p y'. loop e opt' c p = Some y'
      \<Longrightarrow> settings (fst (snd y')) = settings opt'"
    "(case fallback (fail_flag (optimize env opt)) (optimize env opt) counter of
        (Inl e, opt', counter') \<Rightarrow> Some (Inl e, opt', counter', Suc passes)
      | (Inr again, opt', counter') \<Rightarrow>
          if again then loop env opt' counter' (Suc passes)
          else Some (Inr (), opt', counter', Suc passes)) = Some y"
  show "settings (fst (snd y)) = settings opt"
  proof (cases "fail_flag (optimize env opt)")
    case False
    with 1(2) show ?thesis
      by (auto simp add: fallback_def)
  next
    case True
    show ?thesis
    proof (cases "unat counter > retry_attempt_limit (settings opt)")
      case True
      with \<open>fail_flag (optimize env opt)\<close> 1(2) show ?thesis
        by (auto simp add: fallback_def Let_def)
    next
      case False
      with \<open>fail_flag (optimize env opt)\<close> 1(2)
      have "loop env (reset (optimize env opt)) (counter + 1) (Suc passes) = Some y"
        by (simp add: fallback_def Let_def)
      then have "settings (fst (snd y)) = settings (reset (optimize env opt))"
        by (rule 1(1))
      then show ?thesis
        by simp
    qed
  qed
qed

text \<open>
  C9. When \<open>retry_attempt_limit + 1\<close> fits the 64-bit counter, the retry loop returns
  for every initial value of the counter and whatever the collaborators do: it makes
  at most \<open>retry_attempt_limit + 1 - counter + 1\<close> passes of \<open>optimize\<close> (one pass when
  the counter already exceeds the limit) and ends with the fatal error or normally.
  From a cleared counter that is at most \<open>retry_attempt_limit + 2\<close> passes, and
  \<open>evalControl\<close> returns.
\<close>

theorem evalControl_retry_terminates:
  "retry_attempt_limit (settings opt) + 1 < 2 ^ 64 \<Longrightarrow>
   (\<exists>r opt' counter' n. retry_loop env opt counter 0 = Some (r, opt', counter', n)
       \<and> n \<le> (retry_attempt_limit (settings opt) + 1 - unat counter) + 1
       \<and> (r = Inl (RuntimeError ''Optimizer fail to compute path'') \<or> r = Inr ()))
   \<and> (\<exists>r opt' counter' n.
         retry_loop env (prepare robot_pose robot_speed path checker opt) 0 0
           = Some (r, opt', counter', n)
       \<and> n \<le> retry_attempt_limit (settings opt) + 2)
   \<and> (\<exists>res. evalControl env robot_pose robot_speed path checker opt counter = Some res)"
proof -
  assume lim: "retry_attempt_limit (settings opt) + 1 < 2 ^ 64"
  let ?L = "retry_attempt_limit (settings opt)"
  let ?p = "prepare robot_pose robot_speed path checker opt"
  have a: "\<exists>r opt' counter' n. retry_loop env opt counter 0 = Some (r, opt', counter', n)
       \<and> n \<le> (?L + 1 - unat counter) + 1
       \<and> (r = Inl (RuntimeError ''Optimizer fail to compute path'') \<or> r = Inr ())"
    using retry_loop_bounded [where env = env and counter = counter and passes = 0, OF lim refl]
    by auto
  have lim': "retry_attempt_limit (settings ?p) + 1 < 2 ^ 64"
    using lim by simp
  have b: "\<exists>r opt' counter' n. retry_loop env ?p 0 0 = Some (r, opt', counter', n)
       \<and> n \<le> ?L + 2"
    using retry_loop_bounded [where env = env and counter = 0 and passes = 0, OF lim' refl]
    by auto
  obtain res where run: "retry_loop env ?p counter 0 = Some res"
    using retry_loop_bounded [where env = env and counter = counter and passes = 0, OF lim' refl]
    by auto
  have c: "\<exists>res. evalControl env robot_pose robot_speed path checker opt counter = Some res"
    by (simp add: evalControl_def run split: prod.splits sum.splits)
  from a b c show ?thesis
    by blast
qed

theorem evalControl_retry_terminates_witness:
  "retry_attempt_limit (settings example_optimizer) + 1 < 2 ^ 64
   \<and> (\<exists>r opt' counter' n.
         retry_loop failing_collaborators example_optimizer 0 0 = Some (r, opt', counter', n)
       \<and> n \<le> 3
       \<and> (r = Inl (RuntimeError ''Optimizer fail to compute path'') \<or> r = Inr ()))
   \<and> (\<exists>res. evalControl failing_collaborators (0, 0, 0)
          \<lparr>linear_x = 0, linear_y = 0, angular_z = 0\<rparr> \<lparr>header_stamp = 0, poses = []\<rparr> 0
          example_optimizer 0 = Some res)"
proof -
  have l: "retry_attempt_limit (settings example_optimizer) = 1"
    by (simp add: example_optimizer_def example_settings_def)
  have h: "retry_attempt_limit (settings example_optimizer) + 1 < 2 ^ 64"
    by (simp add: l)
  show ?thesis
    using h evalControl_retry_terminates [where env = failing_collaborators and counter = 0
        and robot_pose = "(0, 0, 0)"
        and robot_speed = "\<lparr>linear_x = 0, linear_y = 0, angular_z = 0\<rparr>"
        and path = "\<lparr>header_stamp = 0, poses = []\<rparr>" and checker = 0, OF h]
    by (simp add: l numeral_3_eq_3)
qed

lemma rotate1_nth:
  "t < length xs \<Longrightarrow> rotate1 xs ! t = (if Suc t < length xs then xs ! Suc t else xs ! 0)"
  by (cases xs) (auto simp add: nth_append nth_Cons')

lemma shiftControlSequence_rows:
  assumes "2 \<le> length (data (control_sequence opt))"
  shows "\<exists>opt2. shiftControlSequence opt = Inr opt2
      \<and> opt2 = opt\<lparr>control_sequence := (control_sequence opt)
                   \<lparr>data := data (control_sequence opt2)\<rparr>\<rparr>
      \<and> length (data (control_sequence opt2)) = length (data (control_sequence opt))
      \<and> (\<forall>t. Suc t < length (data (control_sequence opt)) \<longrightarrow>
            data (control_sequence opt2) ! t = data (control_sequence opt) ! Suc t)
      \<and> data (control_sequence opt2) ! (length (data (control_sequence opt)) - 1)
          = data (control_sequence opt) ! (length (data (control_sequence opt)) - 1)"
proof -
  let ?U = "data (control_sequence opt)"
  let ?h = "length ?U"
  let ?r = "rotate1 ?U"
  let ?U2 = "?r[?h - 1 := ?r ! (?h - 2)]"
  have eq: "shiftControlSequence opt
      = Inr (opt\<lparr>control_sequence := (control_sequence opt)\<lparr>data := ?U2\<rparr>\<rparr>)"
    using assms by (simp add: shiftControlSequence_def Let_def)
  have rows: "?U2 ! t = ?U ! Suc t" if "Suc t < ?h" for t
    using that by (simp add: rotate1_nth)
  have suc: "Suc (?h - 2) = ?h - 1" and lt: "Suc (?h - 2) < ?h" and lt2: "?h - 2 < ?h"
    using assms by simp_all
  have "?U2 ! (?h - 1) = ?r ! (?h - 2)"
    using assms by simp
  also have "\<dots> = ?U ! Suc (?h - 2)"
    using lt lt2 by (simp only: rotate1_nth if_True)
  finally have last: "?U2 ! (?h - 1) = ?U ! (?h - 1)"
    by (simp only: suc)
  show ?thesis
    using rows last by (simp add: eq)
qed

text \<open>
  C6. Let the retry loop of a tick end normally with the optimizer \<open>opt1\<close>, whose
  control sequence is the nominal sequence \<open>U\<close> after optimization. With shifting on
  and at least two rows, \<open>evalControl\<close> emits row 1 of \<open>U\<close> as a twist and leaves a
  sequence of the same length with \<open>U_after[t] = U[t + 1]\<close> for \<open>t + 1 < H\<close> and
  \<open>U_after[H - 1] = U[H - 1]\<close>. With shifting off and at least one row it emits row 0
  and leaves the optimizer, and so \<open>U\<close>, as the loop left it.
\<close>

theorem evalControl_emits_and_shifts:
  assumes "retry_loop env (prepare robot_pose robot_speed path checker opt) counter 0
             = Some (Inr (), opt1, counter1, n)"
  shows "(shift_control_sequence (settings opt) \<and> 2 \<le> length (data (control_sequence opt1)) \<longrightarrow>
          (\<exists>opt2. evalControl env robot_pose robot_speed path checker opt counter
               = Some (Inr (toTwistStamped (data (control_sequence opt1) ! 1)
                              (ControlSequence.idx (control_sequence opt1)) (isHolonomic opt1)
                              (header_stamp path) (base_frame_id opt1)),
                       opt2, counter1)
             \<and> length (data (control_sequence opt2)) = length (data (control_sequence opt1))
             \<and> (\<forall>t. t + 1 < length (data (control_sequence opt1)) \<longrightarrow>
                   data (control_sequence opt2) ! t = data (control_sequence opt1) ! (t + 1))
             \<and> data (control_sequence opt2) ! (length (data (control_sequence opt1)) - 1)
                 = data (control_sequence opt1) ! (length (data (control_sequence opt1)) - 1)))
       \<and> (\<not> shift_control_sequence (settings opt) \<and> 1 \<le> length (data (control_sequence opt1)) \<longrightarrow>
            evalControl env robot_pose robot_speed path checker opt counter
               = Some (Inr (toTwistStamped (data (control_sequence opt1) ! 0)
                              (ControlSequence.idx (control_sequence opt1)) (isHolonomic opt1)
                              (header_stamp path) (base_frame_id opt1)),
                       opt1, counter1))"
proof -
  have s: "settings opt1 = settings opt"
    using retry_loop_settings [OF assms] by simp
  show ?thesis
  proof (intro conjI impI)
    assume on: "shift_control_sequence (settings opt) \<and> 2 \<le> length (data (control_sequence opt1))"
    then obtain opt2 where sh: "shiftControlSequence opt1 = Inr opt2"
      and len: "length (data (control_sequence opt2)) = length (data (control_sequence opt1))"
      and rows: "\<forall>t. Suc t < length (data (control_sequence opt1)) \<longrightarrow>
            data (control_sequence opt2) ! t = data (control_sequence opt1) ! Suc t"
      and last: "data (control_sequence opt2) ! (length (data (control_sequence opt1)) - 1)
          = data (control_sequence opt1) ! (length (data (control_sequence opt1)) - 1)"
      using shiftControlSequence_rows [of opt1] by blast
    have "evalControl env robot_pose robot_speed path checker opt counter
        = Some (Inr (toTwistStamped (data (control_sequence opt1) ! 1)
                              (ControlSequence.idx (control_sequence opt1)) (isHolonomic opt1)
                              (header_stamp path) (base_frame_id opt1)), opt2, counter1)"
      using on by (simp add: evalControl_def assms getControlFromSequenceAsTwist_def s sh)
    with len rows last
    show "\<exists>opt2. evalControl env robot_pose robot_speed path checker opt counter
               = Some (Inr (toTwistStamped (data (control_sequence opt1) ! 1)
                              (ControlSequence.idx (control_sequence opt1)) (isHolonomic opt1)
                              (header_stamp path) (base_frame_id opt1)),
                       opt2, counter1)
             \<and> length (data (control_sequence opt2)) = length (data (control_sequence opt1))
             \<and> (\<forall>t. t + 1 < length (data (control_sequence opt1)) \<longrightarrow>
                   data (control_sequence opt2) ! t = data (control_sequence opt1) ! (t + 1))
             \<and> data (control_sequence opt2) ! (length (data (control_sequence opt1)) - 1)
                 = data (control_sequence opt1) ! (length (data (control_sequence opt1)) - 1)"
      by auto
  next
    assume off: "\<not> shift_control_sequence (settings opt) \<and> 1 \<le> length (data (control_sequence opt1))"
    then have ne: "data (control_sequence opt1) \<noteq> []" and noshift: "\<not> shift_control_sequence (settings opt)"
      by auto
    then show "evalControl env robot_pose robot_speed path checker opt counter
               = Some (Inr (toTwistStamped (data (control_sequence opt1) ! 0)
                              (ControlSequence.idx (control_sequence opt1)) (isHolonomic opt1)
                              (header_stamp path) (base_frame_id opt1)),
                       opt1, counter1)"
      by (simp add: evalControl_def assms getControlFromSequenceAsTwist_def s)
  qed
qed

theorem evalControl_emits_and_shifts_witness:
  "retry_loop example_collaborators
       (prepare (0, 0, 0) example_speed example_path 0 shifting_optimizer) 0 0
     = Some (Inr (), optimize example_collaborators
          (prepare (0, 0, 0) example_speed example_path 0 shifting_optimizer), 0, 1)
   \<and> shift_control_sequence (settings shifting_optimizer)
   \<and> data (control_sequence (optimize example_collaborators
          (prepare (0, 0, 0) example_speed example_path 0 shifting_optimizer)))
       = [[1 / 10, 0, 0], [1 / 5, 0, 0], [3 / 10, 0, 0]]
   \<and> (\<exists>opt2. evalControl example_collaborators (0, 0, 0) example_speed example_path 0
                 shifting_optimizer 0
               = Some (Inr \<lparr>twist = \<lparr>linear_x = 1 / 5, linear_y = 0, angular_z = 0\<rparr>,
                            stamp = 7, frame_id = ''base_link''\<rparr>, opt2, 0)
           \<and> length (data (control_sequence opt2)) = 3
           \<and> data (control_sequence opt2) ! 0 = [1 / 5, 0, 0]
           \<and> data (control_sequence opt2) ! 1 = [3 / 10, 0, 0]
           \<and> data (control_sequence opt2) ! 2 = [3 / 10, 0, 0])
   \<and> retry_loop example_collaborators
       (prepare (0, 0, 0) example_speed example_path 0 warm_optimizer) 0 0
     = Some (Inr (), optimize example_collaborators
          (prepare (0, 0, 0) example_speed example_path 0 warm_optimizer), 0, 1)
   \<and> \<not> shift_control_sequence (settings warm_optimizer)
   \<and> evalControl example_collaborators (0, 0, 0) example_speed example_path 0 warm_optimizer 0
       = Some (Inr \<lparr>twist = \<lparr>linear_x = 1 / 10, linear_y = 0, angular_z = 0\<rparr>,
                    stamp = 7, frame_id = ''base_link''\<rparr>,
               optimize example_collaborators
                 (prepare (0, 0, 0) example_speed example_path 0 warm_optimizer), 0)"
proof -
  let ?on = "optimize example_collaborators
          (prepare (0, 0, 0) example_speed example_path 0 shifting_optimizer)"
  let ?off = "optimize example_collaborators
          (prepare (0, 0, 0) example_speed example_path 0 warm_optimizer)"
  have f_on: "\<not> fail_flag ?on" and u_on: "data (control_sequence ?on)
       = [[1 / 10, 0, 0], [1 / 5, 0, 0], [3 / 10, 0, 0]]"
    and m_on: "ControlSequence.idx (control_sequence ?on)" "isHolonomic ?on"
      "base_frame_id ?on = ''base_link''"
    by (simp_all add: shifting_optimizer_def tick_defs cong del: if_weak_cong)
  have f_off: "\<not> fail_flag ?off" and u_off: "data (control_sequence ?off)
       = [[1 / 10, 0, 0], [1 / 5, 0, 0], [3 / 10, 0, 0]]"
    and m_off: "ControlSequence.idx (control_sequence ?off)" "isHolonomic ?off"
      "base_frame_id ?off = ''base_link''"
    by (simp_all add: shifting_optimizer_def tick_defs cong del: if_weak_cong)
  have s_on: "shift_control_sequence (settings shifting_optimizer)"
    and s_off: "\<not> shift_control_sequence (settings warm_optimizer)"
    by (simp_all add: shifting_optimizer_def example_defs reset_def Let_def)
  have run_on: "retry_loop example_collaborators
       (prepare (0, 0, 0) example_speed example_path 0 shifting_optimizer) 0 0
     = Some (Inr (), ?on, 0, 1)"
    using f_on by (subst retry_loop.simps) (simp add: fallback_def)
  have run_off: "retry_loop example_collaborators
       (prepare (0, 0, 0) example_speed example_path 0 warm_optimizer) 0 0
     = Some (Inr (), ?off, 0, 1)"
    using f_off by (subst retry_loop.simps) (simp add: fallback_def)
  have stamp: "header_stamp example_path = 7"
    by (simp add: example_path_def)
  from evalControl_emits_and_shifts [OF run_on, THEN conjunct1] s_on u_on
  obtain opt2 where
    ev: "evalControl example_collaborators (0, 0, 0) example_speed example_path 0
           shifting_optimizer 0
         = Some (Inr (toTwistStamped (data (control_sequence ?on) ! 1)
                   (ControlSequence.idx (control_sequence ?on)) (isHolonomic ?on)
                   (header_stamp example_path) (base_frame_id ?on)), opt2, 0)"
    and len: "length (data (control_sequence opt2)) = length (data (control_sequence ?on))"
    and rows: "\<forall>t. t + 1 < length (data (control_sequence ?on)) \<longrightarrow>
                   data (control_sequence opt2) ! t = data (control_sequence ?on) ! (t + 1)"
    and last: "data (control_sequence opt2) ! (length (data (control_sequence ?on)) - 1)
                 = data (control_sequence ?on) ! (length (data (control_sequence ?on)) - 1)"
    by auto
  have on: "\<exists>opt2. evalControl example_collaborators (0, 0, 0) example_speed example_path 0
                 shifting_optimizer 0
               = Some (Inr \<lparr>twist = \<lparr>linear_x = 1 / 5, linear_y = 0, angular_z = 0\<rparr>,
                            stamp = 7, frame_id = ''base_link''\<rparr>, opt2, 0)
           \<and> length (data (control_sequence opt2)) = 3
           \<and> data (control_sequence opt2) ! 0 = [1 / 5, 0, 0]
           \<and> data (control_sequence opt2) ! 1 = [3 / 10, 0, 0]
           \<and> data (control_sequence opt2) ! 2 = [3 / 10, 0, 0]"
    using ev len rows [rule_format, of 0] rows [rule_format, of 1] last
    by (simp add: u_on m_on stamp toTwistStamped_def cvx_col_def cvy_col_def cwz_col_def
        numeral_2_eq_2)
  have off: "evalControl example_collaborators (0, 0, 0) example_speed example_path 0
        warm_optimizer 0
       = Some (Inr \<lparr>twist = \<lparr>linear_x = 1 / 10, linear_y = 0, angular_z = 0\<rparr>,
                    stamp = 7, frame_id = ''base_link''\<rparr>, ?off, 0)"
    using evalControl_emits_and_shifts [OF run_off, THEN conjunct2] s_off
    by (simp add: u_off m_off stamp toTwistStamped_def cvx_col_def cvy_col_def cwz_col_def)
  show ?thesis
    using run_on s_on u_on on run_off s_off off by blast
qed

section \<open>Properties of the optimized trajectory\<close>

lemma integrate_poses_shape:
  "length (integrate_poses holonomic dt p vs) = length vs
   \<and> list_all (\<lambda>row. length row = 3) (integrate_poses holonomic dt p vs)"
  by (induction holonomic dt p vs rule: integrate_poses.induct) simp_all

lemma optimized_state_batch:
  assumes "1 \<le> time_steps (settings opt)"
    and "time_steps (settings opt) - 1 \<le> length (data (control_sequence opt))"
  shows "controls (optimized_state opt) = [data (control_sequence opt)]
     \<and> length (velocities (optimized_state opt)) = 1
     \<and> length (hd (velocities (optimized_state opt))) = time_steps (settings opt)
     \<and> pose (optimized_state opt) = (0, 0, 0)"
proof -
  obtain h where h: "time_steps (settings opt) = Suc h"
    using assms(1) by (cases "time_steps (settings opt)") auto
  show ?thesis
    using assms(2)
    by (simp add: optimized_state_def State_reset_def zeros3_def zeros2_def zeros1_def
      assignTimeIntervals_def updateStateVelocities_def updateInitialStateVelocities_def
      propagateStateVelocitiesFromInitials_def Let_def State_default_def h)
qed

text \<open>
  C7. With the integrator of the specification, at least two time steps and a control
  sequence of \<open>H\<close> rows: the state that \<open>getOptimizedTrajectory\<close> integrates has a
  batch of one whose controls are the control sequence, the integrator returns one
  trajectory for it, and \<open>getOptimizedTrajectory\<close> returns that trajectory, \<open>H\<close> poses
  of three numbers.
\<close>

theorem getOptimizedTrajectory_shape:
  assumes integ: "integrate env = TrajectoryIntegrator_integrate"
    and steps: "2 \<le> time_steps (settings opt)"
    and rows: "length (data (control_sequence opt)) = time_steps (settings opt)"
  shows "\<exists>traj. getOptimizedTrajectory env opt = Inr traj
     \<and> length traj = time_steps (settings opt)
     \<and> list_all (\<lambda>row. length row = 3) traj
     \<and> controls (optimized_state opt) = [data (control_sequence opt)]
     \<and> integrate env (from_shape_of (generated_trajectories opt)) (settings opt) (optimized_state opt)
          (isHolonomic opt) = [traj]"
proof -
  let ?st = "optimized_state opt"
  have b: "controls ?st = [data (control_sequence opt)]
     \<and> length (velocities ?st) = 1
     \<and> length (hd (velocities ?st)) = time_steps (settings opt)
     \<and> pose ?st = (0, 0, 0)"
    using steps rows by (intro optimized_state_batch) simp_all
  then obtain vel where vel: "velocities ?st = [vel]" and len: "length vel = time_steps (settings opt)"
    by (cases "velocities ?st") auto
  let ?traj = "integrate_poses (isHolonomic opt) (model_dt (settings opt)) (pose ?st) vel"
  have T: "integrate env (from_shape_of (generated_trajectories opt)) (settings opt) ?st (isHolonomic opt) = [?traj]"
    by (simp add: integ TrajectoryIntegrator_integrate_def vel)
  have shape: "length ?traj = time_steps (settings opt)" "list_all (\<lambda>row. length row = 3) ?traj"
    using integrate_poses_shape [of "isHolonomic opt" "model_dt (settings opt)" "pose ?st" vel] len
    by simp_all
  have wide: "list_all (\<lambda>row. 2 \<le> length row) ?traj"
    using shape(2) by (simp add: list_all_iff)
  have "getOptimizedTrajectory env opt = Inr ?traj"
    using steps shape(1) wide by (simp add: getOptimizedTrajectory_def Let_def T squeeze_def)
  with shape b T show ?thesis
    by blast
qed

theorem getOptimizedTrajectory_shape_witness:
  "integrate spec_collaborators = TrajectoryIntegrator_integrate
   \<and> time_steps (settings warm_optimizer) = 3
   \<and> data (control_sequence warm_optimizer) = [[1 / 10, 0, 0], [1 / 5, 0, 0], [3 / 10, 0, 0]]
   \<and> (\<exists>traj. getOptimizedTrajectory spec_collaborators warm_optimizer = Inr traj
        \<and> length traj = 3
        \<and> list_all (\<lambda>row. length row = 3) traj
        \<and> controls (optimized_state warm_optimizer) = [data (control_sequence warm_optimizer)])
   \<and> getOptimizedTrajectory spec_collaborators warm_optimizer
       = Inr [[0, 0, 0], [0, 0, 0], [1 / 100, 0, 0]]"
proof -
  have h1: "integrate spec_collaborators = TrajectoryIntegrator_integrate"
    by (simp add: spec_collaborators_def)
  have steps: "time_steps (settings warm_optimizer) = 3"
    by (simp add: example_defs reset_def Let_def)
  have u: "data (control_sequence warm_optimizer) = [[1 / 10, 0, 0], [1 / 5, 0, 0], [3 / 10, 0, 0]]"
    by (simp add: example_defs)
  have h2: "2 \<le> time_steps (settings warm_optimizer)"
    by (simp add: steps)
  have h3: "length (data (control_sequence warm_optimizer)) = time_steps (settings warm_optimizer)"
    by (simp add: steps u)
  have shape: "\<exists>traj. getOptimizedTrajectory spec_collaborators warm_optimizer = Inr traj
        \<and> length traj = 3
        \<and> list_all (\<lambda>row. length row = 3) traj
        \<and> controls (optimized_state warm_optimizer) = [data (control_sequence warm_optimizer)]"
    using getOptimizedTrajectory_shape [OF h1 h2 h3] by (auto simp add: steps)
  have val: "getOptimizedTrajectory spec_collaborators warm_optimizer
       = Inr [[0, 0, 0], [0, 0, 0], [1 / 100, 0, 0]]"
    by (simp add: getOptimizedTrajectory_def h1 TrajectoryIntegrator_integrate_def squeeze_def
        optimized_state_def State_default_def tick_defs cong del: if_weak_cong)
  show ?thesis
    using h1 steps u shape val by blast
qed

end
